theory Spec2Isabelle
  imports Main "HOL-Library.Sublist" "HOL-Library.Char_ord" "HOL-Library.List_Lexorder"
    "HOL-Library.Product_Lexorder"
begin

section \<open>CloudPaste: upload orchestration and path resolution\<close>

text \<open>
  A shallow embedding of \<^verbatim>\<open>backend/src/routes/s3UploadRoutes.js\<close> (the slug
  allocator and the presign, commit and direct-upload handlers) and of the API-key
  service (\<^verbatim>\<open>createApiKey\<close>, \<^verbatim>\<open>updateApiKey\<close>,
  \<^verbatim>\<open>getAccessibleMountsByBasicPath\<close>).

  Conventions of the embedding.
  \<^item> JavaScript strings are \<^typ>\<open>string\<close>; \<^verbatim>\<open>startsWith\<close> is \<^const>\<open>prefix\<close>,
    \<^verbatim>\<open>endsWith\<close> is \<^const>\<open>suffix\<close>, \<^verbatim>\<open>substring(n)\<close> is \<^const>\<open>drop\<close>.
    Lengths agree with JavaScript's on ASCII text.
  \<^item> A value that may be \<^verbatim>\<open>null\<close> or \<^verbatim>\<open>undefined\<close> is an \<^typ>\<open>'a option\<close>.
    JavaScript truthiness is written out: a string is truthy when it is present and
    non-empty, a number when it is present and non-zero.
  \<^item> A numeric field of a JSON body is a Number holding an integer, written as that
    integer; \<^verbatim>\<open>parseInt\<close> on it goes through its string form (modelled below)
    and never yields \<^verbatim>\<open>NaN\<close>. A numeric query parameter or setting is a decimal
    numeral, which \<^verbatim>\<open>parseInt\<close> reads as its value. Sums of sizes are taken exactly;
    JavaScript's sums agree with them as long as they stay below \<^verbatim>\<open>2^53\<close>.
  \<^item> Database tables are lists of rows in storage order; \<^verbatim>\<open>.first()\<close> is
    \<^const>\<open>find\<close>, \<^verbatim>\<open>DELETE ... WHERE\<close> is \<^const>\<open>filter\<close>.
  \<^item> External collaborators (the object store, hashing, MIME sniffing, clocks, random
    identifiers) are parameters gathered in a record.
\<close>

subsection \<open>JavaScript string helpers\<close>

definition truthy_str :: "string option \<Rightarrow> bool" where
  "truthy_str v = (case v of None \<Rightarrow> False | Some s \<Rightarrow> s \<noteq> [])"

definition truthy_num :: "int option \<Rightarrow> bool" where
  "truthy_num v = (case v of None \<Rightarrow> False | Some n \<Rightarrow> n \<noteq> 0)"

text \<open>\<^verbatim>\<open>s.replace(/\/+$/, "")\<close>: drop the trailing run of slashes.\<close>

definition strip_trailing_slashes :: "string \<Rightarrow> string" where
  "strip_trailing_slashes s = rev (dropWhile (\<lambda>c. c = CHR ''/'') (rev s))"

text \<open>\<^verbatim>\<open>/^[a-zA-Z0-9_-]+$/.test(s)\<close>.\<close>

definition slug_char :: "char \<Rightarrow> bool" where
  "slug_char c =
     ((CHR ''a'' \<le> c \<and> c \<le> CHR ''z'') \<or> (CHR ''A'' \<le> c \<and> c \<le> CHR ''Z'') \<or>
      (CHR ''0'' \<le> c \<and> c \<le> CHR ''9'') \<or> c = CHR ''_'' \<or> c = CHR ''-'')"

definition slugFormatRegex :: "string \<Rightarrow> bool" where
  "slugFormatRegex s = (s \<noteq> [] \<and> list_all slug_char s)"

subsection \<open>\<^verbatim>\<open>parseInt\<close> on a Number\<close>

text \<open>\<^verbatim>\<open>parseInt(v)\<close> converts \<open>v\<close> to a string and reads the longest prefix that is a
  signed decimal numeral. Below \<^verbatim>\<open>1e21\<close> in magnitude the string of an integer-valued
  Number is its decimal numeral, so the result is the Number itself. From \<^verbatim>\<open>1e21\<close> on
  \<^verbatim>\<open>Number::toString\<close> uses exponent notation, \<^verbatim>\<open>d.ddde+NN\<close> or \<^verbatim>\<open>de+NN\<close>, and
  \<^verbatim>\<open>parseInt\<close> stops at the point or at the \<^verbatim>\<open>e\<close>: the result is the single digit \<open>d\<close>,
  with the sign.

  The digits printed are those of the shortest decimal that rounds to the Number. Its
  first digit is the first digit of the Number's value, unless the next decimal with a
  single significant digit already rounds to the Number (as \<^verbatim>\<open>1e+23\<close> does for the
  Number \<open>99999999999999991611392\<close>); rounding is to nearest, ties to the even
  significand. \<open>ulp x\<close> is the gap between the Number \<open>x\<close> and the next one.\<close>

function leading_digit :: "int \<Rightarrow> int" where
  "leading_digit x = (if x < 10 then x else leading_digit (x div 10))"
  by pat_completeness auto
termination
  by (relation "measure nat") auto

function decimal_weight :: "int \<Rightarrow> int" where
  "decimal_weight x = (if x < 10 then 1 else 10 * decimal_weight (x div 10))"
  by pat_completeness auto
termination
  by (relation "measure nat") auto

function ulp :: "int \<Rightarrow> int" where
  "ulp x = (if x < 9007199254740992 then 1 else 2 * ulp (x div 2))"
  by pat_completeness auto
termination
  by (relation "measure nat") auto

declare leading_digit.simps [simp del] decimal_weight.simps [simp del] ulp.simps [simp del]

definition exponent_digit :: "int \<Rightarrow> int" where
  "exponent_digit x =
     (if (leading_digit x + 1) * decimal_weight x < x + ulp x div 2
         \<or> ((leading_digit x + 1) * decimal_weight x = x + ulp x div 2 \<and> even (x div ulp x))
      then (if leading_digit x = 9 then 1 else leading_digit x + 1)
      else leading_digit x)"

definition parseInt :: "int \<Rightarrow> int" where
  "parseInt n =
     (if \<bar>n\<bar> < 1000000000000000000000 then n
      else if n < 0 then - exponent_digit (- n) else exponent_digit n)"

subsection \<open>Tables\<close>

record s3_config =
  config_id :: string
  admin_id :: "string option"
  is_public :: int
  is_default :: int
  total_storage_bytes :: "int option"
  default_folder :: "string option"
  provider_type :: string
  bucket_name :: string

record file_record =
  file_id :: string
  slug :: string
  filename :: string
  storage_path :: string
  s3_url :: string
  s3_config_id :: string
  mimetype :: string
  file_size :: int
  etag :: "string option"
  created_by :: "string option"
  remark :: "string option"
  password :: "string option"
  expires_at :: "string option"
  max_views :: "int option"
  use_proxy :: "int option"

record storage_mount =
  mount_id :: string
  mount_name :: string
  storage_type :: string
  storage_config_id :: string
  mount_path :: string
  is_active :: int
  sort_order :: int

text \<open>A row of the mounts query: the mount's columns and, from the left join, the
  public flag of its storage configuration (\<^verbatim>\<open>NULL\<close> when no configuration matches).\<close>

record mount_row = storage_mount +
  s3c_is_public :: "int option"

subsection \<open>Accessible mounts of an API key (\<^verbatim>\<open>getAccessibleMountsByBasicPath\<close>)\<close>

definition join_is_public :: "s3_config list \<Rightarrow> storage_mount \<Rightarrow> mount_row" where
  "join_is_public cfgs m =
     \<lparr>mount_id = mount_id m, mount_name = mount_name m, storage_type = storage_type m,
      storage_config_id = storage_config_id m, mount_path = mount_path m,
      is_active = is_active m, sort_order = sort_order m,
      s3c_is_public =
        map_option is_public (find (\<lambda>c. config_id c = storage_config_id m) cfgs)\<rparr>"

text \<open>The query: active mounts, left-joined with their configuration, ordered by
  \<^verbatim>\<open>sort_order ASC, name ASC\<close>.\<close>

definition allMounts :: "s3_config list \<Rightarrow> storage_mount list \<Rightarrow> mount_row list" where
  "allMounts cfgs mounts =
     map (join_is_public cfgs)
       (sort_key (\<lambda>m. (sort_order m, mount_name m)) (filter (\<lambda>m. is_active m = 1) mounts))"

definition normalizedBasicPath :: "string \<Rightarrow> string" where
  "normalizedBasicPath basicPath =
     (if basicPath = ''/'' then ''/'' else strip_trailing_slashes basicPath)"

definition normalizedMountPath :: "string \<Rightarrow> string" where
  "normalizedMountPath p =
     (if strip_trailing_slashes p = [] then ''/'' else strip_trailing_slashes p)"

text \<open>The filter callback, branch by branch.\<close>

definition mount_accessible :: "string \<Rightarrow> mount_row \<Rightarrow> bool" where
  "mount_accessible basicPath mount =
     (if storage_type mount = ''S3'' \<and> s3c_is_public mount \<noteq> Some 1 then False
      else if normalizedBasicPath basicPath = ''/'' then True
      else if normalizedMountPath (mount_path mount) = normalizedBasicPath basicPath
              \<or> prefix (normalizedBasicPath basicPath @ ''/'')
                    (normalizedMountPath (mount_path mount)) then True
      else if prefix (normalizedMountPath (mount_path mount) @ ''/'')
                (normalizedBasicPath basicPath) then True
      else False)"

definition getAccessibleMountsByBasicPath ::
  "s3_config list \<Rightarrow> storage_mount list \<Rightarrow> string \<Rightarrow> mount_row list" where
  "getAccessibleMountsByBasicPath cfgs mounts basicPath =
     filter (mount_accessible basicPath) (allMounts cfgs mounts)"

text \<open>The accessibility rule in the specification's words. Paths are compared with
  their trailing slashes stripped; a path lies below another when it continues it past
  a slash. The root, stripped, is the empty path, so every absolute path lies below it.\<close>

definition lies_below :: "string \<Rightarrow> string \<Rightarrow> bool" where
  "lies_below p q = prefix (strip_trailing_slashes q @ ''/'') (strip_trailing_slashes p)"

definition requires_public_but_private :: "mount_row \<Rightarrow> bool" where
  "requires_public_but_private mount =
     (storage_type mount = ''S3'' \<and> s3c_is_public mount \<noteq> Some 1)"

definition accessible_spec :: "string \<Rightarrow> mount_row \<Rightarrow> bool" where
  "accessible_spec B mount =
     (\<not> requires_public_but_private mount \<and>
      (B = ''/'' \<or>
       strip_trailing_slashes (mount_path mount) = strip_trailing_slashes B \<or>
       lies_below (mount_path mount) B \<or>
       lies_below B (mount_path mount)))"

subsection \<open>Resolving the storage prefix of an API key (presign and direct upload)\<close>

text \<open>\<^verbatim>\<open>mounts.sort((a, b) => b.mount_path.length - a.mount_path.length)\<close>: a stable
  sort, longest mount path first.\<close>

definition sort_by_path_length_desc :: "mount_row list \<Rightarrow> mount_row list" where
  "sort_by_path_length_desc mounts = sort_key (\<lambda>m. - int (length (mount_path m))) mounts"

definition with_leading_slash :: "string \<Rightarrow> string" where
  "with_leading_slash p = (if prefix ''/'' p then p else ''/'' @ p)"

definition basicPath_matches :: "string \<Rightarrow> string \<Rightarrow> bool" where
  "basicPath_matches basicPath mountPath =
     (basicPath = mountPath \<or> basicPath = mountPath @ ''/'' \<or>
      prefix (mountPath @ ''/'') basicPath)"

definition subPath_of :: "string \<Rightarrow> string \<Rightarrow> string" where
  "subPath_of basicPath mountPath =
     (if prefix ''/'' (drop (length mountPath) basicPath)
      then drop (length mountPath) basicPath
      else ''/'' @ drop (length mountPath) basicPath)"

text \<open>The loop over the sorted mounts. It returns the sub-path handed to
  \<^verbatim>\<open>normalizeS3SubPath\<close>, together with the mount that matched.\<close>

fun find_matching_mount ::
  "mount_row list \<Rightarrow> string \<Rightarrow> string \<Rightarrow> (mount_row \<times> string) option" where
  "find_matching_mount [] cfg basicPath = None"
| "find_matching_mount (mount # rest) cfg basicPath =
     (if storage_config_id mount \<noteq> cfg then find_matching_mount rest cfg basicPath
      else if basicPath_matches basicPath (with_leading_slash (mount_path mount))
        then Some (mount, subPath_of basicPath (with_leading_slash (mount_path mount)))
      else find_matching_mount rest cfg basicPath)"

definition resolve_subPath ::
  "mount_row list \<Rightarrow> string \<Rightarrow> string \<Rightarrow> (mount_row \<times> string) option" where
  "resolve_subPath mounts cfg basicPath =
     find_matching_mount (sort_by_path_length_desc mounts) cfg basicPath"

subsection \<open>Slug allocation (\<^verbatim>\<open>generateUniqueFileSlug\<close>)\<close>

datatype slug_error = InvalidSlugFormat | SlugAlreadyTaken | SlugGenerationExhausted

definition slug_exists :: "file_record list \<Rightarrow> string \<Rightarrow> bool" where
  "slug_exists fs s = (find (\<lambda>f. slug f = s) fs \<noteq> None)"

definition maxAttempts :: nat where
  "maxAttempts = 10"

text \<open>The retry loop; \<open>gen n\<close> is what \<^verbatim>\<open>generateShortId()\<close> returns at attempt \<open>n\<close>.\<close>

function random_slug_loop ::
  "(nat \<Rightarrow> string) \<Rightarrow> file_record list \<Rightarrow> nat \<Rightarrow> slug_error + string" where
  "random_slug_loop gen fs attempts =
     (if attempts < maxAttempts
      then (if \<not> slug_exists fs (gen attempts) then Inr (gen attempts)
            else random_slug_loop gen fs (attempts + 1))
      else Inl SlugGenerationExhausted)"
  by pat_completeness auto
termination
  by (relation "measure (\<lambda>(gen, fs, attempts). maxAttempts - attempts)") auto

declare random_slug_loop.simps [simp del]

definition generateUniqueFileSlug ::
  "(nat \<Rightarrow> string) \<Rightarrow> file_record list \<Rightarrow> string option \<Rightarrow> bool \<Rightarrow> slug_error + string" where
  "generateUniqueFileSlug gen fs customSlug override =
     (case customSlug of
        None \<Rightarrow> random_slug_loop gen fs 0
      | Some s \<Rightarrow>
          if s = [] then random_slug_loop gen fs 0
          else if \<not> slugFormatRegex s then Inl InvalidSlugFormat
          else if slug_exists fs s \<and> \<not> override then Inl SlugAlreadyTaken
          else Inr s)"

subsection \<open>The world the handlers act on\<close>

text \<open>The metadata store (files, password shadows, storage configurations, the
  \<^verbatim>\<open>max_upload_size\<close> setting in MiB), the object store, and the log of the calls to
  \<^verbatim>\<open>clearCache\<close> and \<^verbatim>\<open>updateParentDirectoriesModifiedTimeHelper\<close>. An object is
  identified by its configuration and the storage path of its file row. The columns
  \<^verbatim>\<open>created_at\<close> and \<^verbatim>\<open>updated_at\<close> are not modelled.\<close>

record world =
  files :: "file_record list"
  file_passwords :: "(string \<times> string) list"
  s3_configs :: "s3_config list"
  max_upload_size :: "int option"
  objects :: "(string \<times> string) list"
  cache_cleared :: "string list"
  parents_touched :: "(string \<times> string) list"

datatype delete_outcome = Deleted | NotDeleted | DeleteThrows

datatype upload_outcome = Uploaded "string option" | UploadThrows

text \<open>External collaborators of a request. \<open>randomSlug n\<close> is the identifier drawn at
  attempt \<open>n\<close> of the slug loop, \<open>shortId\<close> the one drawn for the storage key;
  \<open>getAccessibleMounts\<close> is the list \<^verbatim>\<open>PermissionUtils.getAccessibleMounts\<close> returns for
  the calling key; \<open>expiresAfterHours h\<close> is the ISO timestamp \<open>h\<close> hours from now;
  \<open>uploadObject\<close> is the transfer (the raw \<^verbatim>\<open>ETag\<close> of the answer, or a failure).\<close>

record env =
  generateFileId :: string
  randomSlug :: "nat \<Rightarrow> string"
  shortId :: string
  getMimeTypeFromFilename :: "string \<Rightarrow> string"
  getFileNameAndExt :: "string \<Rightarrow> string \<times> string"
  getSafeFileName :: "string \<Rightarrow> string"
  normalizeS3SubPath :: "string \<Rightarrow> s3_config \<Rightarrow> string"
  buildS3Url :: "s3_config \<Rightarrow> string \<Rightarrow> string"
  generatePresignedPutUrl :: "s3_config \<Rightarrow> string \<Rightarrow> string \<Rightarrow> string"
  hashPassword :: "string \<Rightarrow> string"
  deleteFileFromS3 :: "s3_config \<Rightarrow> string \<Rightarrow> delete_outcome"
  uploadObject :: "s3_config \<Rightarrow> string \<Rightarrow> upload_outcome"
  getAccessibleMounts :: "mount_row list"
  expiresAfterHours :: "int \<Rightarrow> string"
  providerB2 :: string

text \<open>The caller, as \<^verbatim>\<open>PermissionUtils\<close> reports it.\<close>

record auth =
  isAdmin :: bool
  userId :: string
  authType :: string
  apiKeyBasicPath :: "string option"

text \<open>Error answers, with their HTTP status.\<close>

datatype failure =
    MissingS3ConfigId
  | MissingFilename
  | MissingFileId
  | FileTooLarge int int
  | S3ConfigNotFound
  | InsufficientStorage int int int
  | InsufficientStorageFileDeleted int int int
  | NotYourS3Config
  | KeyNeedsPublicConfig
  | NoConfigForAdmin
  | NoPublicConfig
  | SlugConflict
  | NoStoragePermission
  | FileNotFound
  | NotYourFile
  | KeyNotYourFile
  | InvalidS3Config
  | NotYourFileToOverride
  | InternalSlugError slug_error
  | InternalUploadError
  | InternalError


subsection \<open>Quota\<close>

text \<open>\<^verbatim>\<open>SELECT SUM(size) ... WHERE s3_config_id = ?\<close>, with \<^verbatim>\<open>|| 0\<close> for the empty sum, and
  the commit-time variant \<^verbatim>\<open>... AND id != ?\<close>.\<close>

definition currentUsage :: "file_record list \<Rightarrow> string \<Rightarrow> int" where
  "currentUsage fs cfg = sum_list (map file_size (filter (\<lambda>f. s3_config_id f = cfg) fs))"

definition currentUsageExcluding :: "file_record list \<Rightarrow> string \<Rightarrow> string \<Rightarrow> int" where
  "currentUsageExcluding fs cfg fid =
     sum_list (map file_size (filter (\<lambda>f. s3_config_id f = cfg \<and> file_id f \<noteq> fid) fs))"

text \<open>\<^verbatim>\<open>v || 0\<close> on an optional number.\<close>

definition num_or_zero :: "int option \<Rightarrow> int" where
  "num_or_zero v = (case v of None \<Rightarrow> 0 | Some n \<Rightarrow> n)"

definition remainingSpace :: "int \<Rightarrow> int \<Rightarrow> int" where
  "remainingSpace cap used = max 0 (cap - used)"

definition DEFAULT_MAX_UPLOAD_SIZE_MB :: int where
  "DEFAULT_MAX_UPLOAD_SIZE_MB = 100"

definition maxUploadSizeBytes :: "world \<Rightarrow> int" where
  "maxUploadSizeBytes w =
     (case max_upload_size w of None \<Rightarrow> DEFAULT_MAX_UPLOAD_SIZE_MB | Some mb \<Rightarrow> mb) * 1024 * 1024"

text \<open>The three capacity checks, each as its handler writes it: \<open>None\<close> admits, \<open>Some\<close>
  is the error answered. Presign adds \<^verbatim>\<open>parseInt(body.size)\<close> to the usage, commit
  \<^verbatim>\<open>parseInt(body.size || 0)\<close>, direct upload the length of the body.\<close>

definition presign_capacity_check ::
  "s3_config \<Rightarrow> string \<Rightarrow> int option \<Rightarrow> world \<Rightarrow> failure option" where
  "presign_capacity_check s3Config s3ConfigId size_field w =
     (case total_storage_bytes s3Config of
        None \<Rightarrow> None
      | Some cap \<Rightarrow>
          if truthy_num size_field then
            (if currentUsage (files w) s3ConfigId + parseInt (num_or_zero size_field) > cap
             then Some (InsufficientStorage (parseInt (num_or_zero size_field))
                     (remainingSpace cap (currentUsage (files w) s3ConfigId)) cap)
             else None)
          else None)"

definition commit_capacity_check ::
  "s3_config \<Rightarrow> file_record \<Rightarrow> int option \<Rightarrow> world \<Rightarrow> failure option" where
  "commit_capacity_check s3Config file size_field w =
     (case total_storage_bytes s3Config of
        None \<Rightarrow> None
      | Some cap \<Rightarrow>
          if currentUsageExcluding (files w) (s3_config_id file) (file_id file)
               + parseInt (num_or_zero size_field) > cap
          then Some (InsufficientStorageFileDeleted (parseInt (num_or_zero size_field))
                  (remainingSpace cap
                     (currentUsageExcluding (files w) (s3_config_id file) (file_id file))) cap)
          else None)"

definition direct_capacity_check :: "s3_config \<Rightarrow> string \<Rightarrow> int \<Rightarrow> world \<Rightarrow> failure option" where
  "direct_capacity_check s3Config s3ConfigId fileSize w =
     (case total_storage_bytes s3Config of
        None \<Rightarrow> None
      | Some cap \<Rightarrow>
          if currentUsage (files w) s3ConfigId + fileSize > cap
          then Some (InsufficientStorage fileSize
                  (remainingSpace cap (currentUsage (files w) s3ConfigId)) cap)
          else None)"

text \<open>The admission rule in the specification's words: no ceiling admits; otherwise
  reject exactly when usage plus the incoming size exceeds the ceiling.\<close>

definition quota_rejects :: "int option \<Rightarrow> int \<Rightarrow> int \<Rightarrow> bool" where
  "quota_rejects limit usage incoming =
     (case limit of None \<Rightarrow> False | Some cap \<Rightarrow> usage + incoming > cap)"

fun is_capacity_error :: "failure + 'a \<Rightarrow> bool" where
  "is_capacity_error (Inl (InsufficientStorage fileSize remaining cap)) = True"
| "is_capacity_error (Inl (InsufficientStorageFileDeleted fileSize remaining cap)) = True"
| "is_capacity_error r = False"

subsection \<open>Deleting a file: object, row, password shadow\<close>

text \<open>\<^verbatim>\<open>deleteFileFromS3\<close> answers true or false, or throws; the object is gone only in
  the first case.\<close>

definition delete_object :: "env \<Rightarrow> s3_config \<Rightarrow> string \<Rightarrow> world \<Rightarrow> world" where
  "delete_object env s3Config path w =
     (case deleteFileFromS3 env s3Config path of
        Deleted \<Rightarrow> w\<lparr>objects := filter (\<lambda>obj. obj \<noteq> (config_id s3Config, path)) (objects w)\<rparr>
      | NotDeleted \<Rightarrow> w
      | DeleteThrows \<Rightarrow> w)"

definition delete_file_row :: "string \<Rightarrow> world \<Rightarrow> world" where
  "delete_file_row fid w = w\<lparr>files := filter (\<lambda>f. file_id f \<noteq> fid) (files w)\<rparr>"

definition delete_password_row :: "string \<Rightarrow> world \<Rightarrow> world" where
  "delete_password_row fid w =
     w\<lparr>file_passwords := filter (\<lambda>p. fst p \<noteq> fid) (file_passwords w)\<rparr>"

definition clearCache :: "string \<Rightarrow> world \<Rightarrow> world" where
  "clearCache s3ConfigId w = w\<lparr>cache_cleared := cache_cleared w @ [s3ConfigId]\<rparr>"

definition updateParentDirectoriesModifiedTime :: "s3_config \<Rightarrow> string \<Rightarrow> world \<Rightarrow> world" where
  "updateParentDirectoriesModifiedTime s3Config path w =
     w\<lparr>parents_touched := parents_touched w @ [(config_id s3Config, path)]\<rparr>"

text \<open>The body of the \<^verbatim>\<open>try\<close> block that removes a superseded file (override): the
  object, then the row, then the password shadow, then the cache. A throwing object
  delete leaves the block at once; the \<^verbatim>\<open>catch\<close> logs and the upload goes on.\<close>

definition delete_superseded :: "env \<Rightarrow> file_record \<Rightarrow> world \<Rightarrow> world" where
  "delete_superseded env existingFile w =
     (case find (\<lambda>c. config_id c = s3_config_id existingFile) (s3_configs w) of
        None \<Rightarrow>
          clearCache (s3_config_id existingFile)
            (delete_password_row (file_id existingFile)
               (delete_file_row (file_id existingFile) w))
      | Some s3Config \<Rightarrow>
          if deleteFileFromS3 env s3Config (storage_path existingFile) = DeleteThrows then w
          else
            clearCache (s3_config_id existingFile)
              (delete_password_row (file_id existingFile)
                 (delete_file_row (file_id existingFile)
                    (delete_object env s3Config (storage_path existingFile) w))))"

subsection \<open>Commit (\<^verbatim>\<open>POST /api/s3/commit\<close>)\<close>

record commit_body =
  b_file_id :: "string option"
  b_etag :: "string option"
  b_size :: "int option"
  b_password :: "string option"
  b_expires_in :: "int option"
  b_remark :: "string option"
  b_max_views :: "int option"

record commit_result =
  r_id :: string
  r_slug :: string
  r_filename :: string
  r_storage_path :: string
  r_s3_url :: string
  r_mimetype :: string
  r_size :: int
  r_remark :: "string option"
  r_hasPassword :: bool
  r_expiresAt :: "string option"
  r_maxViews :: "int option"
  r_url :: string

definition commit_s3Config :: "auth \<Rightarrow> s3_config list \<Rightarrow> string \<Rightarrow> s3_config option" where
  "commit_s3Config a cfgs cid =
     (if isAdmin a
      then find (\<lambda>c. config_id c = cid \<and> admin_id c = Some (userId a)) cfgs
      else find (\<lambda>c. config_id c = cid \<and> is_public c = 1) cfgs)"

text \<open>\<^verbatim>\<open>body.password ? await hashPassword(body.password) : null\<close>.\<close>

definition passwordHash_of :: "env \<Rightarrow> string option \<Rightarrow> string option" where
  "passwordHash_of env pw =
     (case pw of None \<Rightarrow> None | Some p \<Rightarrow> if p = [] then None else Some (hashPassword env p))"

text \<open>The expiry of a file: a timestamp only for a positive number of hours
  (\<^verbatim>\<open>parseInt(body.expires_in)\<close>), and \<^verbatim>\<open>null\<close> otherwise.\<close>

definition commit_expiresAt :: "env \<Rightarrow> int option \<Rightarrow> string option" where
  "commit_expiresAt env expires_in =
     (case expires_in of
        None \<Rightarrow> None
      | Some h \<Rightarrow>
          if h \<noteq> 0 \<and> parseInt h > 0 then Some (expiresAfterHours env (parseInt h))
          else None)"

text \<open>\<^verbatim>\<open>v || null\<close> on an optional string.\<close>

definition str_or_null :: "string option \<Rightarrow> string option" where
  "str_or_null v = (case v of None \<Rightarrow> None | Some t \<Rightarrow> if t = [] then None else Some t)"

text \<open>\<^verbatim>\<open>body.max_views ? parseInt(body.max_views) : null\<close>.\<close>

definition commit_maxViews :: "int option \<Rightarrow> int option" where
  "commit_maxViews v =
     (case v of None \<Rightarrow> None | Some n \<Rightarrow> if n = 0 then None else Some (parseInt n))"

text \<open>The size written by the \<^verbatim>\<open>UPDATE\<close>: \<^verbatim>\<open>null\<close> (the column keeps its value) when
  \<^verbatim>\<open>body.size\<close> is falsy, else \<^verbatim>\<open>parseInt(body.size)\<close>, with 0 for a negative one.\<close>

definition commit_fileSize :: "int option \<Rightarrow> int option" where
  "commit_fileSize size_field =
     (case size_field of
        None \<Rightarrow> None
      | Some n \<Rightarrow>
          if n = 0 then None else if parseInt n < 0 then Some 0 else Some (parseInt n))"

definition commit_creator :: "auth \<Rightarrow> string" where
  "commit_creator a = (if authType a = ''admin'' then userId a else ''apikey:'' @ userId a)"

text \<open>The \<^verbatim>\<open>UPDATE\<close> statement on one row.\<close>

definition commit_update :: "env \<Rightarrow> auth \<Rightarrow> commit_body \<Rightarrow> file_record \<Rightarrow> file_record" where
  "commit_update env a body f =
     f\<lparr>etag := str_or_null (b_etag body),
       created_by := Some (commit_creator a),
       remark := str_or_null (b_remark body),
       password := passwordHash_of env (b_password body),
       expires_at := commit_expiresAt env (b_expires_in body),
       max_views := commit_maxViews (b_max_views body),
       file_size := (case commit_fileSize (b_size body) of
                       None \<Rightarrow> file_size f | Some n \<Rightarrow> n)\<rparr>"

definition update_file_rows :: "string \<Rightarrow> (file_record \<Rightarrow> file_record) \<Rightarrow> world \<Rightarrow> world" where
  "update_file_rows fid upd w =
     w\<lparr>files := map (\<lambda>f. if file_id f = fid then upd f else f) (files w)\<rparr>"

text \<open>The password shadow: updated when a row exists, inserted otherwise.\<close>

definition upsert_password :: "string \<Rightarrow> string option \<Rightarrow> world \<Rightarrow> world" where
  "upsert_password fid pw w =
     (case pw of
        None \<Rightarrow> w
      | Some p \<Rightarrow>
          if p = [] then w
          else if find (\<lambda>row. fst row = fid) (file_passwords w) \<noteq> None
          then w\<lparr>file_passwords :=
                   map (\<lambda>row. if fst row = fid then (fid, p) else row) (file_passwords w)\<rparr>
          else w\<lparr>file_passwords := file_passwords w @ [(fid, p)]\<rparr>)"

text \<open>Rollback of a commit over quota: the object delete is attempted (a failure is
  logged), then the row is deleted.\<close>

definition commit_rollback :: "env \<Rightarrow> s3_config \<Rightarrow> file_record \<Rightarrow> world \<Rightarrow> world" where
  "commit_rollback env s3Config file w =
     delete_file_row (file_id file) (delete_object env s3Config (storage_path file) w)"

definition commit_persist ::
  "env \<Rightarrow> auth \<Rightarrow> commit_body \<Rightarrow> string \<Rightarrow> s3_config \<Rightarrow> file_record \<Rightarrow> world \<Rightarrow> world" where
  "commit_persist env a body fid s3Config file w =
     clearCache (s3_config_id file)
       (updateParentDirectoriesModifiedTime s3Config (storage_path file)
          (upsert_password fid (b_password body)
             (update_file_rows fid (commit_update env a body) w)))"

definition commit_answer :: "env \<Rightarrow> commit_body \<Rightarrow> file_record \<Rightarrow> commit_result" where
  "commit_answer env body updatedFile =
     \<lparr>r_id = file_id updatedFile, r_slug = slug updatedFile,
      r_filename = filename updatedFile, r_storage_path = storage_path updatedFile,
      r_s3_url = s3_url updatedFile, r_mimetype = mimetype updatedFile,
      r_size = file_size updatedFile, r_remark = remark updatedFile,
      r_hasPassword = (passwordHash_of env (b_password body) \<noteq> None),
      r_expiresAt = commit_expiresAt env (b_expires_in body),
      r_maxViews = commit_maxViews (b_max_views body),
      r_url = ''/file/'' @ slug updatedFile\<rparr>"

definition commit_handler ::
  "env \<Rightarrow> auth \<Rightarrow> commit_body \<Rightarrow> world \<Rightarrow> (failure + commit_result) \<times> world" where
  "commit_handler env a body w =
     (case b_file_id body of
        None \<Rightarrow> (Inl MissingFileId, w)
      | Some fid \<Rightarrow>
          if fid = [] then (Inl MissingFileId, w)
          else
            (case find (\<lambda>f. file_id f = fid) (files w) of
               None \<Rightarrow> (Inl FileNotFound, w)
             | Some file \<Rightarrow>
                 if isAdmin a \<and> truthy_str (created_by file)
                      \<and> created_by file \<noteq> Some (userId a)
                 then (Inl NotYourFile, w)
                 else if authType a = ''apikey'' \<and> truthy_str (created_by file)
                      \<and> created_by file \<noteq> Some (''apikey:'' @ userId a)
                 then (Inl KeyNotYourFile, w)
                 else
                   (case commit_s3Config a (s3_configs w) (s3_config_id file) of
                      None \<Rightarrow> (Inl InvalidS3Config, w)
                    | Some s3Config \<Rightarrow>
                        (case commit_capacity_check s3Config file (b_size body) w of
                           Some err \<Rightarrow> (Inl err, commit_rollback env s3Config file w)
                         | None \<Rightarrow>
                             (case find (\<lambda>f. file_id f = fid)
                                     (files (commit_persist env a body fid s3Config file w)) of
                                None \<Rightarrow>
                                  (Inl InternalError,
                                   commit_persist env a body fid s3Config file w)
                              | Some updatedFile \<Rightarrow>
                                  (Inr (commit_answer env body updatedFile),
                                   commit_persist env a body fid s3Config file w))))))"

subsection \<open>The storage key\<close>

text \<open>\<^verbatim>\<open>String.prototype.trim\<close>, on ASCII white space.\<close>

definition js_space :: "char \<Rightarrow> bool" where
  "js_space c = (c \<in> set [CHR 0x09, CHR 0x0A, CHR 0x0B, CHR 0x0C, CHR 0x0D, CHR 0x20])"

definition js_trim :: "string \<Rightarrow> string" where
  "js_trim s = rev (dropWhile js_space (rev (dropWhile js_space s)))"

text \<open>The caller's directory: \<^verbatim>\<open>path || ""\<close>, trimmed and closed by a slash when it
  holds more than white space.\<close>

definition customPath_of :: "string option \<Rightarrow> string" where
  "customPath_of p =
     (case p of
        None \<Rightarrow> []
      | Some cp \<Rightarrow>
          if cp \<noteq> [] \<and> js_trim cp \<noteq> []
          then (if suffix ''/'' (js_trim cp) then js_trim cp else js_trim cp @ ''/'')
          else cp)"

definition folderPath :: "s3_config \<Rightarrow> string" where
  "folderPath s3Config =
     (case default_folder s3Config of
        None \<Rightarrow> []
      | Some d \<Rightarrow> if d = [] then [] else if suffix ''/'' d then d else d @ ''/'')"

definition actualStoragePath :: "env \<Rightarrow> s3_config \<Rightarrow> string \<Rightarrow> string" where
  "actualStoragePath env s3Config basicPath =
     (case resolve_subPath (getAccessibleMounts env) (config_id s3Config) basicPath of
        None \<Rightarrow> []
      | Some (mount, subPath) \<Rightarrow> normalizeS3SubPath env subPath s3Config)"

text \<open>The branch on the caller that both upload routes share; \<open>namePart\<close> is the file
  name component (\<^verbatim>\<open>shortId + "-" + safeFileName + fileExt\<close>, without the short id when
  the direct upload keeps the original name).\<close>

definition storagePath_of ::
  "env \<Rightarrow> auth \<Rightarrow> s3_config \<Rightarrow> string \<Rightarrow> string \<Rightarrow> failure + string" where
  "storagePath_of env a s3Config customPath namePart =
     (if authType a = ''apikey'' then
        (case apiKeyBasicPath a of
           None \<Rightarrow> Inr (folderPath s3Config @ customPath @ namePart)
         | Some bp \<Rightarrow>
             if bp \<noteq> [] \<and> bp \<noteq> ''/'' then
               (if \<not> list_ex (\<lambda>mount. storage_config_id mount = config_id s3Config)
                        (getAccessibleMounts env)
                then Inl NoStoragePermission
                else Inr (actualStoragePath env s3Config bp @ folderPath s3Config
                          @ customPath @ namePart))
             else Inr (folderPath s3Config @ customPath @ namePart))
      else Inr (folderPath s3Config @ customPath @ namePart))"

definition safeFileName_of :: "env \<Rightarrow> string \<Rightarrow> string" where
  "safeFileName_of env fname = take 50 (getSafeFileName env (fst (getFileNameAndExt env fname)))"

subsection \<open>Presign (\<^verbatim>\<open>POST /api/s3/presign\<close>)\<close>

record presign_body =
  p_s3_config_id :: "string option"
  p_filename :: "string option"
  p_size :: "int option"
  p_path :: "string option"
  p_slug :: "string option"
  p_override :: "string option"

record presign_result =
  pr_file_id :: string
  pr_upload_url :: string
  pr_storage_path :: string
  pr_s3_url :: string
  pr_slug :: string
  pr_provider_type :: string
  pr_contentType :: string

text \<open>The override block of the presign route: no check of who created the old file.\<close>

definition presign_override :: "env \<Rightarrow> presign_body \<Rightarrow> world \<Rightarrow> world" where
  "presign_override env body w =
     (if p_override body = Some ''true'' \<and> truthy_str (p_slug body) then
        (case find (\<lambda>f. Some (slug f) = p_slug body) (files w) of
           None \<Rightarrow> w
         | Some existingFile \<Rightarrow> delete_superseded env existingFile w)
      else w)"

definition presign_created_by :: "auth \<Rightarrow> string option" where
  "presign_created_by a =
     (if authType a = ''admin'' then Some (userId a)
      else if authType a = ''apikey'' then Some (''apikey:'' @ userId a)
      else None)"

text \<open>The placeholder row. Columns the \<^verbatim>\<open>INSERT\<close> does not name are \<^verbatim>\<open>NULL\<close>.\<close>

definition presign_placeholder ::
  "env \<Rightarrow> auth \<Rightarrow> s3_config \<Rightarrow> string \<Rightarrow> string \<Rightarrow> string \<Rightarrow> string \<Rightarrow> file_record" where
  "presign_placeholder env a s3Config s3ConfigId fname slug_value storagePath =
     \<lparr>file_id = generateFileId env, slug = slug_value, filename = fname,
      storage_path = storagePath, s3_url = buildS3Url env s3Config storagePath,
      s3_config_id = s3ConfigId, mimetype = getMimeTypeFromFilename env fname,
      file_size = 0, etag = None, created_by = presign_created_by a,
      remark = None, password = None, expires_at = None, max_views = None,
      use_proxy = None\<rparr>"

definition presign_answer ::
  "env \<Rightarrow> s3_config \<Rightarrow> string \<Rightarrow> string \<Rightarrow> string \<Rightarrow> presign_result" where
  "presign_answer env s3Config fname slug_value storagePath =
     \<lparr>pr_file_id = generateFileId env,
      pr_upload_url =
        generatePresignedPutUrl env s3Config storagePath (getMimeTypeFromFilename env fname),
      pr_storage_path = storagePath, pr_s3_url = buildS3Url env s3Config storagePath,
      pr_slug = slug_value, pr_provider_type = provider_type s3Config,
      pr_contentType = getMimeTypeFromFilename env fname\<rparr>"

text \<open>From the slug onwards: allocation, override, storage key, placeholder.\<close>

definition presign_register ::
  "env \<Rightarrow> auth \<Rightarrow> presign_body \<Rightarrow> s3_config \<Rightarrow> string \<Rightarrow> string \<Rightarrow> world
     \<Rightarrow> (failure + presign_result) \<times> world" where
  "presign_register env a body s3Config s3ConfigId fname w =
     (case generateUniqueFileSlug (randomSlug env) (files w) (p_slug body)
             (p_override body = Some ''true'') of
        Inl e \<Rightarrow>
          (if e = SlugAlreadyTaken then (Inl SlugConflict, w) else (Inl (InternalSlugError e), w))
      | Inr slug_value \<Rightarrow>
          (case storagePath_of env a s3Config (customPath_of (p_path body))
                  (shortId env @ ''-'' @ safeFileName_of env fname
                   @ snd (getFileNameAndExt env fname)) of
             Inl e \<Rightarrow> (Inl e, presign_override env body w)
           | Inr storagePath \<Rightarrow>
               (Inr (presign_answer env s3Config fname slug_value storagePath),
                (presign_override env body w)
                  \<lparr>files := files (presign_override env body w)
                     @ [presign_placeholder env a s3Config s3ConfigId fname slug_value
                          storagePath]\<rparr>)))"

definition presign_handler ::
  "env \<Rightarrow> auth \<Rightarrow> presign_body \<Rightarrow> world \<Rightarrow> (failure + presign_result) \<times> world" where
  "presign_handler env a body w =
     (case p_s3_config_id body of
        None \<Rightarrow> (Inl MissingS3ConfigId, w)
      | Some s3ConfigId \<Rightarrow>
          if s3ConfigId = [] then (Inl MissingS3ConfigId, w)
          else
            (case p_filename body of
               None \<Rightarrow> (Inl MissingFilename, w)
             | Some fname \<Rightarrow>
                 if fname = [] then (Inl MissingFilename, w)
                 else if truthy_num (p_size body)
                      \<and> num_or_zero (p_size body) > maxUploadSizeBytes w
                 then (Inl (FileTooLarge (maxUploadSizeBytes w) (num_or_zero (p_size body))), w)
                 else
                   (case find (\<lambda>c. config_id c = s3ConfigId) (s3_configs w) of
                      None \<Rightarrow> (Inl S3ConfigNotFound, w)
                    | Some s3Config \<Rightarrow>
                        (case presign_capacity_check s3Config s3ConfigId (p_size body) w of
                           Some err \<Rightarrow> (Inl err, w)
                         | None \<Rightarrow>
                             if isAdmin a \<and> admin_id s3Config \<noteq> Some (userId a)
                             then (Inl NotYourS3Config, w)
                             else presign_register env a body s3Config s3ConfigId fname w))))"

subsection \<open>Direct upload (\<^verbatim>\<open>PUT /api/upload-direct/:filename\<close>)\<close>

text \<open>The request: the file name of the route, the length of the body in bytes, and the
  query parameters. The URL fields of the answer are not modelled.\<close>

record direct_request =
  d_filename :: string
  d_byteLength :: nat
  q_s3_config_id :: "string option"
  q_slug :: "string option"
  q_path :: "string option"
  q_remark :: "string option"
  q_password :: "string option"
  q_expires_in :: "int option"
  q_max_views :: "int option"
  q_override :: "string option"
  q_original_filename :: "string option"
  q_use_proxy :: "string option"

record direct_result =
  dr_id :: string
  dr_slug :: string
  dr_filename :: string
  dr_mimetype :: string
  dr_size :: int
  dr_remark :: string
  dr_requires_password :: bool
  dr_max_views :: "int option"
  dr_expires_at :: "string option"
  dr_use_proxy :: int
  dr_created_by :: string
  dr_used_original_filename :: bool

text \<open>Which configuration: the one asked for (a key may only name a public one), else
  the caller's default, else any configuration of the caller.\<close>

definition direct_default_config :: "auth \<Rightarrow> s3_config list \<Rightarrow> failure + string" where
  "direct_default_config a cfgs =
     (if isAdmin a then
        (case find (\<lambda>c. admin_id c = Some (userId a) \<and> is_default c = 1) cfgs of
           Some c \<Rightarrow> Inr (config_id c)
         | None \<Rightarrow>
             (case find (\<lambda>c. admin_id c = Some (userId a)) cfgs of
                Some c \<Rightarrow> Inr (config_id c)
              | None \<Rightarrow> Inl NoConfigForAdmin))
      else
        (case find (\<lambda>c. is_public c = 1 \<and> is_default c = 1) cfgs of
           Some c \<Rightarrow> Inr (config_id c)
         | None \<Rightarrow>
             (case find (\<lambda>c. is_public c = 1) cfgs of
                Some c \<Rightarrow> Inr (config_id c)
              | None \<Rightarrow> Inl NoPublicConfig)))"

definition direct_select_config ::
  "auth \<Rightarrow> string option \<Rightarrow> s3_config list \<Rightarrow> failure + string" where
  "direct_select_config a q cfgs =
     (case q of
        None \<Rightarrow> direct_default_config a cfgs
      | Some s3ConfigId \<Rightarrow>
          if s3ConfigId = [] then direct_default_config a cfgs
          else if authType a = ''apikey''
                  \<and> find (\<lambda>c. config_id c = s3ConfigId \<and> is_public c = 1) cfgs = None
          then Inl KeyNeedsPublicConfig
          else Inr s3ConfigId)"

definition currentCreator :: "auth \<Rightarrow> string" where
  "currentCreator a = (if isAdmin a then userId a else ''apikey:'' @ userId a)"

text \<open>The override block of the direct route: only the creator of the old file may
  replace it.\<close>

definition direct_override :: "env \<Rightarrow> auth \<Rightarrow> direct_request \<Rightarrow> world \<Rightarrow> failure + world" where
  "direct_override env a req w =
     (if q_override req = Some ''true'' \<and> truthy_str (q_slug req) then
        (case find (\<lambda>f. Some (slug f) = q_slug req) (files w) of
           None \<Rightarrow> Inr w
         | Some existingFile \<Rightarrow>
             if created_by existingFile \<noteq> Some (currentCreator a)
             then Inl NotYourFileToOverride
             else Inr (delete_superseded env existingFile w))
      else Inr w)"

definition strip_quotes :: "string \<Rightarrow> string" where
  "strip_quotes s = filter (\<lambda>c. c \<noteq> CHR 0x22) s"

text \<open>The ETag kept from the transfer: through the presigned URL (B2) the header is
  stripped of quotes when it is truthy; through the SDK a falsy ETag becomes \<^verbatim>\<open>null\<close>.\<close>

definition etag_of :: "env \<Rightarrow> s3_config \<Rightarrow> string option \<Rightarrow> string option" where
  "etag_of env s3Config raw =
     (case raw of
        None \<Rightarrow> None
      | Some e \<Rightarrow>
          if provider_type s3Config = providerB2 env
          then (if e = [] then Some e else Some (strip_quotes e))
          else (if e = [] then None else Some (strip_quotes e)))"

definition upload_key :: "env \<Rightarrow> s3_config \<Rightarrow> string \<Rightarrow> string" where
  "upload_key env s3Config storagePath =
     (if provider_type s3Config = providerB2 env then storagePath
      else if prefix ''/'' storagePath then drop 1 storagePath else storagePath)"

definition direct_expiresAt :: "env \<Rightarrow> int option \<Rightarrow> string option" where
  "direct_expiresAt env expires_in =
     (if num_or_zero expires_in > 0 then Some (expiresAfterHours env (num_or_zero expires_in))
      else None)"

definition direct_maxViews :: "int option \<Rightarrow> int option" where
  "direct_maxViews v = (if num_or_zero v > 0 then Some (num_or_zero v) else None)"

definition direct_useProxy :: "string option \<Rightarrow> int" where
  "direct_useProxy v = (if v \<noteq> Some ''0'' then 1 else 0)"

definition direct_remark :: "string option \<Rightarrow> string" where
  "direct_remark v = (case v of None \<Rightarrow> [] | Some r \<Rightarrow> r)"

definition direct_namePart :: "env \<Rightarrow> direct_request \<Rightarrow> string" where
  "direct_namePart env req =
     (if q_original_filename req = Some ''true'' then [] else shortId env @ ''-'')
     @ safeFileName_of env (d_filename req) @ snd (getFileNameAndExt env (d_filename req))"

definition direct_record ::
  "env \<Rightarrow> auth \<Rightarrow> direct_request \<Rightarrow> s3_config \<Rightarrow> string \<Rightarrow> string \<Rightarrow> string
     \<Rightarrow> string option \<Rightarrow> file_record" where
  "direct_record env a req s3Config s3ConfigId slug_value storagePath etag_value =
     \<lparr>file_id = generateFileId env, slug = slug_value, filename = d_filename req,
      storage_path = storagePath, s3_url = buildS3Url env s3Config storagePath,
      s3_config_id = s3ConfigId, mimetype = getMimeTypeFromFilename env (d_filename req),
      file_size = int (d_byteLength req), etag = etag_value,
      created_by = Some (currentCreator a),
      remark = Some (direct_remark (q_remark req)),
      password = passwordHash_of env (q_password req),
      expires_at = direct_expiresAt env (q_expires_in req),
      max_views = direct_maxViews (q_max_views req),
      use_proxy = Some (direct_useProxy (q_use_proxy req))\<rparr>"

definition insert_password :: "string \<Rightarrow> string option \<Rightarrow> world \<Rightarrow> world" where
  "insert_password fid pw w =
     (case pw of
        None \<Rightarrow> w
      | Some p \<Rightarrow> if p = [] then w else w\<lparr>file_passwords := file_passwords w @ [(fid, p)]\<rparr>)"

definition direct_answer :: "env \<Rightarrow> auth \<Rightarrow> direct_request \<Rightarrow> string \<Rightarrow> direct_result" where
  "direct_answer env a req slug_value =
     \<lparr>dr_id = generateFileId env, dr_slug = slug_value, dr_filename = d_filename req,
      dr_mimetype = getMimeTypeFromFilename env (d_filename req),
      dr_size = int (d_byteLength req), dr_remark = direct_remark (q_remark req),
      dr_requires_password = (passwordHash_of env (q_password req) \<noteq> None),
      dr_max_views = direct_maxViews (q_max_views req),
      dr_expires_at = direct_expiresAt env (q_expires_in req),
      dr_use_proxy = direct_useProxy (q_use_proxy req),
      dr_created_by = currentCreator a,
      dr_used_original_filename = (q_original_filename req = Some ''true'')\<rparr>"

text \<open>Transfer and registration, once the storage key is known.\<close>

definition direct_store ::
  "env \<Rightarrow> auth \<Rightarrow> direct_request \<Rightarrow> s3_config \<Rightarrow> string \<Rightarrow> string \<Rightarrow> string \<Rightarrow> world
     \<Rightarrow> (failure + direct_result) \<times> world" where
  "direct_store env a req s3Config s3ConfigId slug_value storagePath w =
     (case uploadObject env s3Config (upload_key env s3Config storagePath) of
        UploadThrows \<Rightarrow> (Inl InternalUploadError, w)
      | Uploaded raw \<Rightarrow>
          (Inr (direct_answer env a req slug_value),
           clearCache s3ConfigId
             (updateParentDirectoriesModifiedTime s3Config storagePath
                (insert_password (generateFileId env) (q_password req)
                   (w\<lparr>objects := objects w @ [(config_id s3Config, storagePath)],
                      files := files w
                        @ [direct_record env a req s3Config s3ConfigId slug_value storagePath
                             (etag_of env s3Config raw)]\<rparr>)))))"

text \<open>From the slug onwards: allocation, override with its ownership check, storage
  key, transfer.\<close>

definition direct_register ::
  "env \<Rightarrow> auth \<Rightarrow> direct_request \<Rightarrow> s3_config \<Rightarrow> string \<Rightarrow> world
     \<Rightarrow> (failure + direct_result) \<times> world" where
  "direct_register env a req s3Config s3ConfigId w =
     (case generateUniqueFileSlug (randomSlug env) (files w) (q_slug req)
             (q_override req = Some ''true'') of
        Inl e \<Rightarrow>
          (if e = SlugAlreadyTaken then (Inl SlugConflict, w) else (Inl (InternalSlugError e), w))
      | Inr slug_value \<Rightarrow>
          (case direct_override env a req w of
             Inl e \<Rightarrow> (Inl e, w)
           | Inr w1 \<Rightarrow>
               (case storagePath_of env a s3Config (customPath_of (q_path req))
                       (direct_namePart env req) of
                  Inl e \<Rightarrow> (Inl e, w1)
                | Inr storagePath \<Rightarrow>
                    direct_store env a req s3Config s3ConfigId slug_value storagePath w1)))"

definition direct_handler ::
  "env \<Rightarrow> auth \<Rightarrow> direct_request \<Rightarrow> world \<Rightarrow> (failure + direct_result) \<times> world" where
  "direct_handler env a req w =
     (case direct_select_config a (q_s3_config_id req) (s3_configs w) of
        Inl e \<Rightarrow> (Inl e, w)
      | Inr s3ConfigId \<Rightarrow>
          (case find (\<lambda>c. config_id c = s3ConfigId) (s3_configs w) of
             None \<Rightarrow> (Inl S3ConfigNotFound, w)
           | Some s3Config \<Rightarrow>
               if isAdmin a \<and> admin_id s3Config \<noteq> Some (userId a)
               then (Inl NotYourS3Config, w)
               else if authType a = ''apikey'' \<and> is_public s3Config \<noteq> 1
               then (Inl KeyNeedsPublicConfig, w)
               else if int (d_byteLength req) > maxUploadSizeBytes w
               then (Inl (FileTooLarge (maxUploadSizeBytes w) (int (d_byteLength req))), w)
               else
                 (case direct_capacity_check s3Config s3ConfigId (int (d_byteLength req)) w of
                    Some err \<Rightarrow> (Inl err, w)
                  | None \<Rightarrow> direct_register env a req s3Config s3ConfigId w)))"

subsection \<open>API keys (\<^verbatim>\<open>createApiKey\<close>, \<^verbatim>\<open>updateApiKey\<close>)\<close>

text \<open>The \<^verbatim>\<open>expires_at\<close> argument: absent, \<^verbatim>\<open>null\<close>, or a string.\<close>

datatype expiry_arg = ExpiryUndefined | ExpiryNull | ExpiryString string

record api_key =
  key_id :: string
  key_name :: string
  key_value :: string
  text_permission :: int
  file_permission :: int
  mount_permission :: int
  basic_path :: string
  key_expires_at :: "string option"
  key_created_at :: string
  last_used :: "string option"

record key_data =
  kd_name :: "string option"
  kd_custom_key :: "string option"
  kd_expires_at :: expiry_arg
  kd_text_permission :: "bool option"
  kd_file_permission :: "bool option"
  kd_mount_permission :: "bool option"
  kd_basic_path :: "string option"

record update_data =
  ud_name :: "string option"
  ud_text_permission :: "bool option"
  ud_file_permission :: "bool option"
  ud_mount_permission :: "bool option"
  ud_basic_path :: "string option"
  ud_expires_at :: expiry_arg

text \<open>Clock and randomness of the key service: \<open>parseDateISO s\<close> is
  \<^verbatim>\<open>new Date(s).toISOString()\<close>, or \<open>None\<close> for an invalid date; \<open>tomorrowISO\<close> is the
  default expiry, one day from now.\<close>

record key_env =
  randomUUID :: string
  generateRandomString :: string
  nowISO :: string
  tomorrowISO :: string
  parseDateISO :: "string \<Rightarrow> string option"

datatype key_error =
  EmptyKeyName | BadKeyFormat | InvalidExpiry | KeyNotFound | KeyNameExists | NoUpdateFields

text \<open>\<^verbatim>\<open>new Date("9999-12-31T23:59:59Z").toISOString()\<close>.\<close>

definition far_future :: string where
  "far_future = ''9999-12-31T23:59:59.000Z''"

definition keyFormatRegex :: "string \<Rightarrow> bool" where
  "keyFormatRegex s = (s \<noteq> [] \<and> list_all slug_char s)"

definition create_expiresAt :: "key_env \<Rightarrow> expiry_arg \<Rightarrow> string option" where
  "create_expiresAt kenv e =
     (case e of
        ExpiryNull \<Rightarrow> Some far_future
      | ExpiryString s \<Rightarrow>
          if s = ''never'' then Some far_future
          else if s \<noteq> [] then parseDateISO kenv s
          else Some (tomorrowISO kenv)
      | ExpiryUndefined \<Rightarrow> Some (tomorrowISO kenv))"

definition permission_flag :: "bool option \<Rightarrow> int" where
  "permission_flag v = (if v = Some True then 1 else 0)"

text \<open>\<^verbatim>\<open>v ? v : d\<close> on an optional string.\<close>

definition str_or :: "string option \<Rightarrow> string \<Rightarrow> string" where
  "str_or v d = (case v of None \<Rightarrow> d | Some s \<Rightarrow> if s = [] then d else s)"

definition new_api_key :: "key_env \<Rightarrow> key_data \<Rightarrow> string \<Rightarrow> string \<Rightarrow> api_key" where
  "new_api_key kenv keyData name expiresAt =
     \<lparr>key_id = randomUUID kenv, key_name = js_trim name,
      key_value = str_or (kd_custom_key keyData) (generateRandomString kenv),
      text_permission = permission_flag (kd_text_permission keyData),
      file_permission = permission_flag (kd_file_permission keyData),
      mount_permission = permission_flag (kd_mount_permission keyData),
      basic_path = str_or (kd_basic_path keyData) ''/'',
      key_expires_at = Some expiresAt, key_created_at = nowISO kenv,
      last_used = None\<rparr>"

text \<open>The answer is the row inserted, with the table after the insert.\<close>

definition createApiKey ::
  "key_env \<Rightarrow> api_key list \<Rightarrow> key_data \<Rightarrow> key_error + (api_key \<times> api_key list)" where
  "createApiKey kenv keys keyData =
     (case kd_name keyData of
        None \<Rightarrow> Inl EmptyKeyName
      | Some name \<Rightarrow>
          if name = [] \<or> js_trim name = [] then Inl EmptyKeyName
          else if truthy_str (kd_custom_key keyData)
                  \<and> \<not> keyFormatRegex (str_or (kd_custom_key keyData) [])
          then Inl BadKeyFormat
          else
            (case create_expiresAt kenv (kd_expires_at keyData) of
               None \<Rightarrow> Inl InvalidExpiry
             | Some expiresAt \<Rightarrow>
                 Inr (new_api_key kenv keyData name expiresAt,
                      keys @ [new_api_key kenv keyData name expiresAt])))"

text \<open>The expiry of an update: \<open>Inr None\<close> leaves the column alone.\<close>

definition update_expiresAt :: "key_env \<Rightarrow> expiry_arg \<Rightarrow> key_error + string option" where
  "update_expiresAt kenv e =
     (case e of
        ExpiryNull \<Rightarrow> Inr (Some far_future)
      | ExpiryString s \<Rightarrow>
          if s = ''never'' then Inr (Some far_future)
          else if s \<noteq> [] then
            (case parseDateISO kenv s of None \<Rightarrow> Inl InvalidExpiry | Some t \<Rightarrow> Inr (Some t))
          else Inr None
      | ExpiryUndefined \<Rightarrow> Inr None)"

definition flag_of_bool :: "bool \<Rightarrow> int" where
  "flag_of_bool b = (if b then 1 else 0)"

text \<open>The sparse \<^verbatim>\<open>UPDATE\<close>: only the supplied fields are written.\<close>

definition apply_update :: "update_data \<Rightarrow> string option \<Rightarrow> api_key \<Rightarrow> api_key" where
  "apply_update updateData expiresAt k =
     k\<lparr>key_name := (case ud_name updateData of None \<Rightarrow> key_name k | Some n \<Rightarrow> js_trim n),
       text_permission := (case ud_text_permission updateData of
                             None \<Rightarrow> text_permission k | Some b \<Rightarrow> flag_of_bool b),
       file_permission := (case ud_file_permission updateData of
                             None \<Rightarrow> file_permission k | Some b \<Rightarrow> flag_of_bool b),
       mount_permission := (case ud_mount_permission updateData of
                              None \<Rightarrow> mount_permission k | Some b \<Rightarrow> flag_of_bool b),
       basic_path := (case ud_basic_path updateData of None \<Rightarrow> basic_path k | Some p \<Rightarrow> p),
       key_expires_at := (case expiresAt of None \<Rightarrow> key_expires_at k | Some t \<Rightarrow> Some t)\<rparr>"

definition updateApiKey ::
  "key_env \<Rightarrow> api_key list \<Rightarrow> string \<Rightarrow> update_data \<Rightarrow> key_error + api_key list" where
  "updateApiKey kenv keys kid updateData =
     (case find (\<lambda>k. key_id k = kid) keys of
        None \<Rightarrow> Inl KeyNotFound
      | Some keyExists \<Rightarrow>
          if truthy_str (ud_name updateData)
             \<and> js_trim (case ud_name updateData of None \<Rightarrow> [] | Some n \<Rightarrow> n) = []
          then Inl EmptyKeyName
          else if truthy_str (ud_name updateData)
             \<and> ud_name updateData \<noteq> Some (key_name keyExists)
             \<and> find (\<lambda>k. Some (key_name k) = map_option js_trim (ud_name updateData)
                          \<and> key_id k \<noteq> kid) keys \<noteq> None
          then Inl KeyNameExists
          else
            (case update_expiresAt kenv (ud_expires_at updateData) of
               Inl e \<Rightarrow> Inl e
             | Inr expiresAt \<Rightarrow>
                 if ud_name updateData = None \<and> ud_text_permission updateData = None
                    \<and> ud_file_permission updateData = None
                    \<and> ud_mount_permission updateData = None
                    \<and> ud_basic_path updateData = None \<and> expiresAt = None
                 then Inl NoUpdateFields
                 else Inr (map (\<lambda>k. if key_id k = kid then apply_update updateData expiresAt k
                                     else k) keys)))"

subsection \<open>Requests that pass the checks before the capacity check\<close>

text \<open>Each handler answers a request on its first failing check. These predicates
  collect, in the handlers' own conditions, what it takes to arrive at the capacity
  check: the values the handler has bound by then are their arguments.\<close>

definition commit_authorised :: "auth \<Rightarrow> file_record \<Rightarrow> bool" where
  "commit_authorised a file =
     (\<not> (isAdmin a \<and> truthy_str (created_by file) \<and> created_by file \<noteq> Some (userId a)) \<and>
      \<not> (authType a = ''apikey'' \<and> truthy_str (created_by file)
           \<and> created_by file \<noteq> Some (''apikey:'' @ userId a)))"

definition commit_reaches_capacity_check ::
  "auth \<Rightarrow> commit_body \<Rightarrow> world \<Rightarrow> string \<Rightarrow> file_record \<Rightarrow> s3_config \<Rightarrow> bool" where
  "commit_reaches_capacity_check a body w fid file s3Config =
     (b_file_id body = Some fid \<and> fid \<noteq> [] \<and>
      find (\<lambda>f. file_id f = fid) (files w) = Some file \<and>
      commit_authorised a file \<and>
      commit_s3Config a (s3_configs w) (s3_config_id file) = Some s3Config)"

definition presign_reaches_capacity_check ::
  "presign_body \<Rightarrow> world \<Rightarrow> string \<Rightarrow> string \<Rightarrow> s3_config \<Rightarrow> bool" where
  "presign_reaches_capacity_check body w s3ConfigId fname s3Config =
     (p_s3_config_id body = Some s3ConfigId \<and> s3ConfigId \<noteq> [] \<and>
      p_filename body = Some fname \<and> fname \<noteq> [] \<and>
      \<not> (truthy_num (p_size body) \<and> num_or_zero (p_size body) > maxUploadSizeBytes w) \<and>
      find (\<lambda>c. config_id c = s3ConfigId) (s3_configs w) = Some s3Config)"

definition direct_reaches_capacity_check ::
  "auth \<Rightarrow> direct_request \<Rightarrow> world \<Rightarrow> string \<Rightarrow> s3_config \<Rightarrow> bool" where
  "direct_reaches_capacity_check a req w s3ConfigId s3Config =
     (direct_select_config a (q_s3_config_id req) (s3_configs w) = Inr s3ConfigId \<and>
      find (\<lambda>c. config_id c = s3ConfigId) (s3_configs w) = Some s3Config \<and>
      \<not> (isAdmin a \<and> admin_id s3Config \<noteq> Some (userId a)) \<and>
      \<not> (authType a = ''apikey'' \<and> is_public s3Config \<noteq> 1) \<and>
      \<not> (int (d_byteLength req) > maxUploadSizeBytes w))"

fun is_size_limit_error :: "failure + 'a \<Rightarrow> bool" where
  "is_size_limit_error (Inl (FileTooLarge limit given)) = True"
| "is_size_limit_error r = False"

text \<open>The two kinds of caller the permission middleware lets through.\<close>

definition caller_is_admin :: "auth \<Rightarrow> bool" where
  "caller_is_admin a = (isAdmin a \<and> authType a = ''admin'')"

definition caller_is_key :: "auth \<Rightarrow> bool" where
  "caller_is_key a = (\<not> isAdmin a \<and> authType a = ''apikey'')"

subsection \<open>Concrete scenarios\<close>

text \<open>One store \<open>c1\<close> with a chosen ceiling, one file with slug \<open>X\<close> of ten bytes that
  the key \<open>k1\<close> created, its password shadow and its object; collaborators that answer
  with fixed values.\<close>

definition store :: "int option \<Rightarrow> s3_config" where
  "store cap =
     \<lparr>config_id = ''c1'', admin_id = Some ''admin1'', is_public = 1, is_default = 1,
      total_storage_bytes = cap, default_folder = Some ''up'', provider_type = ''R2'',
      bucket_name = ''bucket''\<rparr>"

definition file_X :: file_record where
  "file_X =
     \<lparr>file_id = ''f1'', slug = ''X'', filename = ''old.txt'', storage_path = ''up/old.txt'',
      s3_url = ''https://s3/up/old.txt'', s3_config_id = ''c1'', mimetype = ''text/plain'',
      file_size = 10, etag = Some ''e1'', created_by = Some ''apikey:k1'', remark = None,
      password = Some ''h(pw)'', expires_at = None, max_views = None, use_proxy = Some 1\<rparr>"

definition world_with :: "int option \<Rightarrow> world" where
  "world_with cap =
     \<lparr>files = [file_X], file_passwords = [(''f1'', ''pw'')], s3_configs = [store cap],
      max_upload_size = None, objects = [(''c1'', ''up/old.txt'')], cache_cleared = [],
      parents_touched = []\<rparr>"

definition env0 :: env where
  "env0 =
     \<lparr>generateFileId = ''f2'', randomSlug = (\<lambda>n. ''rnd''), shortId = ''sid'',
      getMimeTypeFromFilename = (\<lambda>n. ''text/plain''),
      getFileNameAndExt = (\<lambda>n. (''new'', ''.txt'')),
      getSafeFileName = (\<lambda>n. n),
      normalizeS3SubPath = (\<lambda>p c. drop 1 p @ ''/''),
      buildS3Url = (\<lambda>c p. ''https://s3/'' @ p),
      generatePresignedPutUrl = (\<lambda>c p m. ''https://put/'' @ p),
      hashPassword = (\<lambda>p. ''h('' @ p @ '')''),
      deleteFileFromS3 = (\<lambda>c p. Deleted),
      uploadObject = (\<lambda>c k. Uploaded (Some ''e2'')),
      getAccessibleMounts = [],
      expiresAfterHours = (\<lambda>h. ''later''),
      providerB2 = ''B2''\<rparr>"

text \<open>The same collaborators with a clock that reads the first of January 2025.\<close>

definition env_clock :: env where
  "env_clock =
     env0\<lparr>expiresAfterHours :=
            (\<lambda>h. if h = 24 then ''2025-01-02T00:00:00.000Z''
                 else if h = 1 then ''2025-01-01T01:00:00.000Z''
                 else ''2025-12-31T00:00:00.000Z'')\<rparr>"

definition key_caller :: "string \<Rightarrow> auth" where
  "key_caller uid =
     \<lparr>isAdmin = False, userId = uid, authType = ''apikey'', apiKeyBasicPath = Some ''/''\<rparr>"

definition admin_caller :: "string \<Rightarrow> auth" where
  "admin_caller uid =
     \<lparr>isAdmin = True, userId = uid, authType = ''admin'', apiKeyBasicPath = None\<rparr>"

definition presign_request :: "string option \<Rightarrow> string option \<Rightarrow> int option \<Rightarrow> presign_body" where
  "presign_request slug_field override_field size_field =
     \<lparr>p_s3_config_id = Some ''c1'', p_filename = Some ''new.txt'', p_size = size_field,
      p_path = None, p_slug = slug_field, p_override = override_field\<rparr>"

definition commit_request ::
  "string option \<Rightarrow> int option \<Rightarrow> int option \<Rightarrow> commit_body" where
  "commit_request etag_field size_field expires_field =
     \<lparr>b_file_id = Some ''f1'', b_etag = etag_field, b_size = size_field,
      b_password = Some ''pw2'', b_expires_in = expires_field, b_remark = Some ''note'',
      b_max_views = Some 3\<rparr>"

definition direct_upload :: "string option \<Rightarrow> string option \<Rightarrow> direct_request" where
  "direct_upload slug_field override_field =
     \<lparr>d_filename = ''new.txt'', d_byteLength = 4, q_s3_config_id = Some ''c1'',
      q_slug = slug_field, q_path = None, q_remark = None, q_password = None,
      q_expires_in = None, q_max_views = None, q_override = override_field,
      q_original_filename = None, q_use_proxy = None\<rparr>"


definition root_mount :: storage_mount where
  "root_mount =
     \<lparr>mount_id = ''m0'', mount_name = ''root'', storage_type = ''S3'',
      storage_config_id = ''c1'', mount_path = ''/'', is_active = 1, sort_order = 0\<rparr>"

definition kenv0 :: key_env where
  "kenv0 =
     \<lparr>randomUUID = ''uuid'', generateRandomString = ''rndkey'',
      nowISO = ''2025-01-01T00:00:00.000Z'', tomorrowISO = ''2025-01-02T00:00:00.000Z'',
      parseDateISO = (\<lambda>s. if s = ''2030-01-01'' then Some ''2030-01-01T00:00:00.000Z''
                           else None)\<rparr>"

definition key_request :: "expiry_arg \<Rightarrow> key_data" where
  "key_request expiry =
     \<lparr>kd_name = Some ''ci'', kd_custom_key = None, kd_expires_at = expiry,
      kd_text_permission = Some True, kd_file_permission = Some True,
      kd_mount_permission = None, kd_basic_path = None\<rparr>"

definition key_row :: api_key where
  "key_row =
     \<lparr>key_id = ''k1'', key_name = ''ci'', key_value = ''secret'', text_permission = 1,
      file_permission = 1, mount_permission = 0, basic_path = ''/'',
      key_expires_at = Some ''2025-01-02T00:00:00.000Z'',
      key_created_at = ''2025-01-01T00:00:00.000Z'', last_used = None\<rparr>"

definition expiry_update :: "expiry_arg \<Rightarrow> update_data" where
  "expiry_update expiry =
     \<lparr>ud_name = None, ud_text_permission = None, ud_file_permission = None,
      ud_mount_permission = None, ud_basic_path = None, ud_expires_at = expiry\<rparr>"

section \<open>Properties\<close>

subsection \<open>\<^verbatim>\<open>parseInt\<close>\<close>


lemma leading_digit_bounds: "1 \<le> x \<Longrightarrow> 1 \<le> leading_digit x \<and> leading_digit x \<le> 9"
proof (induction x rule: leading_digit.induct)
  case (1 x)
  show ?case
  proof (cases "x < 10")
    case True
    with "1.prems" show ?thesis by (simp add: leading_digit.simps)
  next
    case False
    then have "1 \<le> x div 10" by simp
    with "1.IH" False show ?thesis by (simp add: leading_digit.simps[of x])
  qed
qed

lemma exponent_digit_bounds: "1 \<le> x \<Longrightarrow> 1 \<le> exponent_digit x \<and> exponent_digit x \<le> 9"
  using leading_digit_bounds[of x] by (simp add: exponent_digit_def)

lemma parseInt_pos_iff [simp]: "0 < parseInt n \<longleftrightarrow> 0 < n"
  using exponent_digit_bounds[of n] exponent_digit_bounds[of "- n"]
  by (auto simp: parseInt_def)

lemma parseInt_neg_iff [simp]: "parseInt n < 0 \<longleftrightarrow> n < 0"
  using exponent_digit_bounds[of n] exponent_digit_bounds[of "- n"]
  by (auto simp: parseInt_def)

lemma parseInt_nonneg_iff [simp]: "0 \<le> parseInt n \<longleftrightarrow> 0 \<le> n"
  using parseInt_neg_iff[of n] by linarith

lemma parseInt_0_iff [simp]: "parseInt n = 0 \<longleftrightarrow> n = 0"
  using parseInt_pos_iff[of n] parseInt_neg_iff[of n] by linarith

lemma parseInt_magnitude: "\<bar>parseInt n\<bar> \<le> \<bar>n\<bar>"
  using exponent_digit_bounds[of n] exponent_digit_bounds[of "- n"]
  by (auto simp: parseInt_def)


subsection \<open>Accessible mounts\<close>

lemma strip_trailing_slashes_not_slash: "strip_trailing_slashes s \<noteq> ''/''"
proof
  assume "strip_trailing_slashes s = ''/''"
  then have "rev (dropWhile (\<lambda>c. c = CHR ''/'') (rev s)) = [CHR ''/'']"
    by (simp only: strip_trailing_slashes_def)
  then have "dropWhile (\<lambda>c. c = CHR ''/'') (rev s) = [CHR ''/'']"
    by (simp only: rev_singleton_conv)
  then have "dropWhile (\<lambda>c. c = CHR ''/'') (rev s) \<noteq> []
      \<and> hd (dropWhile (\<lambda>c. c = CHR ''/'') (rev s)) = CHR ''/''"
    by simp
  then show False
    using hd_dropWhile[of "\<lambda>c. c = CHR ''/''" "rev s"] by blast
qed

lemma normalizedBasicPath_cases:
  "(B = ''/'' \<and> normalizedBasicPath B = ''/'') \<or>
   (B \<noteq> ''/'' \<and> normalizedBasicPath B = strip_trailing_slashes B
      \<and> normalizedBasicPath B \<noteq> ''/'')"
  using strip_trailing_slashes_not_slash by (simp add: normalizedBasicPath_def)

lemma in_accessible_mounts_iff:
  "m \<in> set (getAccessibleMountsByBasicPath cfgs mounts B)
     \<longleftrightarrow> m \<in> set (allMounts cfgs mounts) \<and> mount_accessible B m"
  by (simp add: getAccessibleMountsByBasicPath_def)

text \<open>Away from a mount at the root, the filter is the rule of the specification.\<close>

lemma mount_accessible_iff_spec:
  assumes "strip_trailing_slashes (mount_path m) \<noteq> []"
  shows "mount_accessible B m = accessible_spec B m"
proof (cases "B = ''/''")
  case True
  then show ?thesis
    by (simp add: mount_accessible_def accessible_spec_def normalizedBasicPath_def
        requires_public_but_private_def)
next
  case False
  then have nb: "normalizedBasicPath B = strip_trailing_slashes B"
    and ns: "normalizedBasicPath B \<noteq> ''/''"
    using normalizedBasicPath_cases[of B] by auto
  have nm: "normalizedMountPath (mount_path m) = strip_trailing_slashes (mount_path m)"
    using assms by (simp add: normalizedMountPath_def)
  show ?thesis
    unfolding mount_accessible_def accessible_spec_def lies_below_def
      requires_public_but_private_def
    using False ns by (simp only: nm nb) auto
qed

text \<open>A mount at the root is normalised to \<open>''/''\<close>, and the test for an ancestor then
  asks the basic path to start with two slashes.\<close>

lemma root_mount_accessible:
  assumes "strip_trailing_slashes (mount_path m) = []"
  shows "mount_accessible B m =
     (\<not> requires_public_but_private m \<and>
      (B = ''/'' \<or> strip_trailing_slashes B = [] \<or> prefix ''//'' (strip_trailing_slashes B)))"
proof (cases "B = ''/''")
  case True
  then show ?thesis
    by (simp add: mount_accessible_def normalizedBasicPath_def requires_public_but_private_def)
next
  case False
  then have nb: "normalizedBasicPath B = strip_trailing_slashes B"
    and ns: "normalizedBasicPath B \<noteq> ''/''"
    using normalizedBasicPath_cases[of B] by auto
  have nm: "normalizedMountPath (mount_path m) = ''/''"
    using assms by (simp add: normalizedMountPath_def)
  have "prefix (strip_trailing_slashes B @ ''/'') ''/'' \<longleftrightarrow> strip_trailing_slashes B = []"
    by (cases "strip_trailing_slashes B") simp_all
  then show ?thesis
    unfolding mount_accessible_def requires_public_but_private_def
    using False ns by (simp only: nm nb) auto
qed

text \<open>
  \<^bold>\<open>C3\<close> (mount accessibility). The claim: a mount is in the computed accessible set if
  and only if it is not an S3 mount on a non-public configuration and the basic path is
  the root, or the mount path equals or lies below the basic path, or the mount path is
  an ancestor of the basic path, trailing slashes stripped. The code misses one case of
  the last alternative: a public mount at the root \<open>/\<close> is an ancestor of the basic path
  \<open>/a\<close>, and the computed set for \<open>/a\<close> does not hold it.
\<close>

theorem root_mount_hidden_from_nested_key:
  "accessible_spec ''/a'' (join_is_public [store None] root_mount) \<and>
   getAccessibleMountsByBasicPath [store None] [root_mount] ''/a'' = []"
proof -
  have row: "join_is_public [store None] root_mount =
      \<lparr>mount_id = ''m0'', mount_name = ''root'', storage_type = ''S3'',
       storage_config_id = ''c1'', mount_path = ''/'', is_active = 1, sort_order = 0,
       s3c_is_public = Some 1\<rparr>"
    by (simp add: join_is_public_def root_mount_def store_def)
  have all: "allMounts [store None] [root_mount] = [join_is_public [store None] root_mount]"
    by (simp add: allMounts_def root_mount_def)
  have spec: "accessible_spec ''/a'' (join_is_public [store None] root_mount)"
    unfolding row
    by (simp add: accessible_spec_def requires_public_but_private_def lies_below_def
        strip_trailing_slashes_def)
  have code: "\<not> mount_accessible ''/a'' (join_is_public [store None] root_mount)"
    unfolding row
    by (simp add: mount_accessible_def normalizedBasicPath_def normalizedMountPath_def
        strip_trailing_slashes_def)
  from spec code all show ?thesis
    by (simp add: getAccessibleMountsByBasicPath_def)
qed

subsection \<open>Longest-prefix resolution\<close>












subsection \<open>Slug allocation\<close>

lemma slug_exists_iff: "slug_exists fs s \<longleftrightarrow> (\<exists>f \<in> set fs. slug f = s)"
  by (induction fs) (auto simp: slug_exists_def)

lemma slugFormatRegex_iff:
  "slugFormatRegex s \<longleftrightarrow> s \<noteq> [] \<and> (\<forall>c \<in> set s. slug_char c)"
  by (simp add: slugFormatRegex_def list_all_iff)

text \<open>
  \<^bold>\<open>C6\<close> (slug allocation with a custom slug), as the code has it. For a call with
  a non-empty custom slug: a slug outside \<open>[A-Za-z0-9_-]+\<close> fails with the validation
  error; a well-formed slug that a file row already carries fails with the conflict error
  when override is false; and it is returned unchanged when no row carries it or override
  is true. The empty string does not match the pattern either, but it is falsy: a call
  with the empty custom slug is not validated and allocates a random slug, as a call
  without custom slug does.
\<close>

theorem custom_slug_allocation:
  "(s \<noteq> [] \<and> \<not> slugFormatRegex s \<longrightarrow>
      generateUniqueFileSlug gen fs (Some s) ov = Inl InvalidSlugFormat) \<and>
   (slugFormatRegex s \<and> (\<exists>f \<in> set fs. slug f = s) \<and> \<not> ov \<longrightarrow>
      generateUniqueFileSlug gen fs (Some s) ov = Inl SlugAlreadyTaken) \<and>
   (slugFormatRegex s \<and> ((\<exists>f \<in> set fs. slug f = s) \<longrightarrow> ov) \<longrightarrow>
      generateUniqueFileSlug gen fs (Some s) ov = Inr s) \<and>
   \<not> slugFormatRegex [] \<and>
   generateUniqueFileSlug gen fs (Some []) ov = generateUniqueFileSlug gen fs None ov \<and>
   generateUniqueFileSlug gen fs None ov = random_slug_loop gen fs 0 \<and>
   (\<not> (\<exists>f \<in> set fs. slug f = gen 0) \<longrightarrow>
      generateUniqueFileSlug gen fs (Some []) ov = Inr (gen 0))"
proof -
  have first: "\<not> (\<exists>f \<in> set fs. slug f = gen 0) \<longrightarrow> random_slug_loop gen fs 0 = Inr (gen 0)"
    by (simp add: random_slug_loop.simps[of gen fs 0] maxAttempts_def slug_exists_iff)
  have empty: "\<not> slugFormatRegex []"
    by (simp add: slugFormatRegex_def)
  have nonempty: "slugFormatRegex s \<Longrightarrow> s \<noteq> []"
    by (auto simp: slugFormatRegex_def)
  show ?thesis
    using first empty nonempty
    by (auto simp: generateUniqueFileSlug_def slug_exists_iff)
qed

theorem custom_slug_allocation_witness:
  "generateUniqueFileSlug (\<lambda>n. ''rnd'') [file_X] (Some ''bad slug'') False
     = Inl InvalidSlugFormat \<and>
   generateUniqueFileSlug (\<lambda>n. ''rnd'') [file_X] (Some ''X'') False = Inl SlugAlreadyTaken \<and>
   generateUniqueFileSlug (\<lambda>n. ''rnd'') [file_X] (Some ''X'') True = Inr ''X'' \<and>
   generateUniqueFileSlug (\<lambda>n. ''rnd'') [file_X] (Some ''new-slug_1'') False
     = Inr ''new-slug_1'' \<and>
   generateUniqueFileSlug (\<lambda>n. ''rnd'') [file_X] (Some []) True = Inr ''rnd'' \<and>
   \<not> slugFormatRegex ''bad slug'' \<and> slugFormatRegex ''X'' \<and> slugFormatRegex ''new-slug_1''"
  using custom_slug_allocation[of "''bad slug''" "\<lambda>n. ''rnd''" "[file_X]" False]
    custom_slug_allocation[of "''X''" "\<lambda>n. ''rnd''" "[file_X]" False]
    custom_slug_allocation[of "''X''" "\<lambda>n. ''rnd''" "[file_X]" True]
    custom_slug_allocation[of "''new-slug_1''" "\<lambda>n. ''rnd''" "[file_X]" False]
  by (simp add: slugFormatRegex_def slug_char_def file_X_def)

text \<open>The empty custom slug: it does not match the pattern, and the call returns the
  random slug instead of the validation error.\<close>

theorem empty_custom_slug_not_validated:
  "\<not> slugFormatRegex [] \<and>
   generateUniqueFileSlug (randomSlug env0) [file_X] (Some []) False = Inr ''rnd''"
  by (simp add: generateUniqueFileSlug_def slugFormatRegex_def random_slug_loop.simps
      maxAttempts_def slug_exists_def file_X_def env0_def)

subsection \<open>Commit\<close>

lemma find_map_update:
  assumes "\<And>f. file_id (g f) = file_id f"
  shows "find (\<lambda>f. file_id f = fid) (map (\<lambda>f. if file_id f = fid then g f else f) xs)
           = map_option g (find (\<lambda>f. file_id f = fid) xs)"
  by (induction xs) (simp_all add: assms)

lemma files_upsert_password [simp]: "files (upsert_password fid pw w) = files w"
  by (simp add: upsert_password_def split: option.splits)

lemma files_commit_persist:
  "files (commit_persist env a body fid s3Config file w) =
     map (\<lambda>f. if file_id f = fid then commit_update env a body f else f) (files w)"
  by (simp add: commit_persist_def clearCache_def updateParentDirectoriesModifiedTime_def
      update_file_rows_def)

lemma file_id_commit_update [simp]: "file_id (commit_update env a body f) = file_id f"
  by (simp add: commit_update_def)

lemma find_commit_persist:
  "find (\<lambda>f. file_id f = fid) (files (commit_persist env a body fid s3Config file w))
     = map_option (commit_update env a body) (find (\<lambda>f. file_id f = fid) (files w))"
  by (simp add: files_commit_persist find_map_update)

text \<open>The handler, once the request has passed the checks before the capacity check.\<close>

lemma commit_handler_from_capacity_check:
  assumes "commit_reaches_capacity_check a body w fid file s3Config"
  shows "commit_handler env a body w =
     (case commit_capacity_check s3Config file (b_size body) w of
        Some err \<Rightarrow> (Inl err, commit_rollback env s3Config file w)
      | None \<Rightarrow> (Inr (commit_answer env body (commit_update env a body file)),
                 commit_persist env a body fid s3Config file w))"
proof -
  from assms have id: "b_file_id body = Some fid" and ne: "fid \<noteq> []"
    and f: "find (\<lambda>f. file_id f = fid) (files w) = Some file"
    and au: "commit_authorised a file"
    and c: "commit_s3Config a (s3_configs w) (s3_config_id file) = Some s3Config"
    by (simp_all add: commit_reaches_capacity_check_def)
  from au have g1: "\<not> (isAdmin a \<and> truthy_str (created_by file)
        \<and> created_by file \<noteq> Some (userId a))"
    and g2: "\<not> (authType a = ''apikey'' \<and> truthy_str (created_by file)
        \<and> created_by file \<noteq> Some (''apikey:'' @ userId a))"
    by (simp_all add: commit_authorised_def)
  have re: "find (\<lambda>f. file_id f = fid) (files (commit_persist env a body fid s3Config file w))
      = Some (commit_update env a body file)"
    by (simp add: find_commit_persist f)
  show ?thesis
    unfolding commit_handler_def
    by (simp only: id option.case ne if_False f g1 g2 c re split: option.split)
qed

lemma commit_handler_success:
  assumes "fst (commit_handler env a body w) = Inr r"
  shows "\<exists>fid file s3Config.
           commit_reaches_capacity_check a body w fid file s3Config \<and>
           commit_capacity_check s3Config file (b_size body) w = None"
  using assms
  unfolding commit_handler_def commit_reaches_capacity_check_def commit_authorised_def
  by (auto split: option.splits if_splits)


lemma delete_object_other_fields [simp]:
  "files (delete_object env s3Config path w) = files w"
  "file_passwords (delete_object env s3Config path w) = file_passwords w"
  "s3_configs (delete_object env s3Config path w) = s3_configs w"
  "cache_cleared (delete_object env s3Config path w) = cache_cleared w"
  "parents_touched (delete_object env s3Config path w) = parents_touched w"
  by (simp_all add: delete_object_def split: delete_outcome.splits)




lemma reaches_capacity_check_etag [simp]:
  "commit_reaches_capacity_check a (body\<lparr>b_etag := e\<rparr>) w fid file s3Config
     = commit_reaches_capacity_check a body w fid file s3Config"
  by (simp add: commit_reaches_capacity_check_def)

lemma commit_handler_unreached:
  assumes "\<not> (\<exists>fid file s3Config. commit_reaches_capacity_check a body w fid file s3Config)"
  shows "commit_handler env a (body\<lparr>b_etag := e\<rparr>) w = commit_handler env a body w"
  using assms
  unfolding commit_handler_def commit_reaches_capacity_check_def commit_authorised_def
  by (auto split: option.splits)

lemma commit_update_etag:
  "commit_update env a (body\<lparr>b_etag := e\<rparr>) f
     = (commit_update env a body f)\<lparr>etag := str_or_null e\<rparr>"
  by (simp add: commit_update_def)

lemma commit_answer_etag [simp]:
  "commit_answer env (body\<lparr>b_etag := e\<rparr>) (f\<lparr>etag := x\<rparr>) = commit_answer env body f"
  by (simp add: commit_answer_def)

lemma commit_persist_etag:
  "commit_persist env a (body\<lparr>b_etag := e\<rparr>) fid s3Config file w
     = update_file_rows fid (\<lambda>f. f\<lparr>etag := str_or_null e\<rparr>)
         (commit_persist env a body fid s3Config file w)"
  by (simp add: commit_persist_def clearCache_def updateParentDirectoriesModifiedTime_def
      update_file_rows_def upsert_password_def commit_update_etag o_def
      split: option.splits cong: map_cong)

text \<open>The columns the \<^verbatim>\<open>UPDATE\<close> writes, from the fields of the request.\<close>

lemma commit_update_fields:
  "commit_update env a body f =
     f\<lparr>etag := (if truthy_str (b_etag body) then b_etag body else None),
       created_by := Some (if authType a = ''admin'' then userId a else ''apikey:'' @ userId a),
       remark := (if truthy_str (b_remark body) then b_remark body else None),
       password := (if truthy_str (b_password body)
                    then map_option (hashPassword env) (b_password body) else None),
       expires_at := (if 0 < num_or_zero (b_expires_in body)
                      then Some (expiresAfterHours env (parseInt (num_or_zero (b_expires_in body))))
                      else None),
       max_views := (if truthy_num (b_max_views body)
                     then Some (parseInt (num_or_zero (b_max_views body))) else None),
       file_size := (if truthy_num (b_size body)
                     then max 0 (parseInt (num_or_zero (b_size body)))
                     else file_size f)\<rparr>"
proof -
  have e: "str_or_null v = (if truthy_str v then v else None)" for v
    by (simp add: str_or_null_def truthy_str_def split: option.splits)
  have c: "commit_creator a = (if authType a = ''admin'' then userId a else ''apikey:'' @ userId a)"
    by (simp add: commit_creator_def)
  have p: "passwordHash_of env v
      = (if truthy_str v then map_option (hashPassword env) v else None)" for v
    by (simp add: passwordHash_of_def truthy_str_def split: option.splits)
  have x: "commit_expiresAt env v
      = (if 0 < num_or_zero v then Some (expiresAfterHours env (parseInt (num_or_zero v)))
         else None)" for v
    by (simp add: commit_expiresAt_def num_or_zero_def split: option.splits)
  have m: "commit_maxViews v
      = (if truthy_num v then Some (parseInt (num_or_zero v)) else None)" for v
    by (simp add: commit_maxViews_def truthy_num_def num_or_zero_def split: option.splits)
  have z: "(case commit_fileSize v of None \<Rightarrow> file_size f | Some n \<Rightarrow> n)
      = (if truthy_num v then max 0 (parseInt (num_or_zero v)) else file_size f)" for v
    by (simp add: commit_fileSize_def truthy_num_def num_or_zero_def max_def
        split: option.splits)
  show ?thesis
    unfolding commit_update_def e c p x m z ..
qed

text \<open>
  \<^bold>\<open>C7\<close> (commit without ETag). A commit answers the same with and without an ETag,
  so none is rejected for a missing ETag. A failing commit leaves the same world either
  way. A successful commit without ETag leaves the world of the commit with ETag, but for
  the \<open>etag\<close> column of the committed row, which is \<open>NULL\<close>. The row then holds: as
  creator the caller; the remark and the hash of the password of the request, or \<open>NULL\<close>
  for a falsy one; as expiry the time \<^verbatim>\<open>parseInt(expires_in)\<close> hours from now when
  \<open>expires_in\<close> is positive, else \<open>NULL\<close>; as view limit \<^verbatim>\<open>parseInt(max_views)\<close>, or
  \<open>NULL\<close> for a falsy one; as size \<^verbatim>\<open>parseInt(size)\<close>, 0 if that is negative, and the
  size it had when the request reports none or zero.
\<close>

theorem commit_without_etag:
  "fst (commit_handler env a (body\<lparr>b_etag := None\<rparr>) w)
     = fst (commit_handler env a (body\<lparr>b_etag := Some t\<rparr>) w) \<and>
   (isl (fst (commit_handler env a (body\<lparr>b_etag := Some t\<rparr>) w)) \<longrightarrow>
      snd (commit_handler env a (body\<lparr>b_etag := None\<rparr>) w)
        = snd (commit_handler env a (body\<lparr>b_etag := Some t\<rparr>) w)) \<and>
   (\<forall>fid. \<not> isl (fst (commit_handler env a (body\<lparr>b_etag := Some t\<rparr>) w))
          \<and> b_file_id body = Some fid \<longrightarrow>
      snd (commit_handler env a (body\<lparr>b_etag := None\<rparr>) w)
        = update_file_rows fid (\<lambda>f. f\<lparr>etag := None\<rparr>)
            (snd (commit_handler env a (body\<lparr>b_etag := Some t\<rparr>) w))) \<and>
   (\<forall>fid file. \<not> isl (fst (commit_handler env a (body\<lparr>b_etag := None\<rparr>) w))
          \<and> b_file_id body = Some fid
          \<and> find (\<lambda>f. file_id f = fid) (files w) = Some file \<longrightarrow>
      find (\<lambda>f. file_id f = fid)
           (files (snd (commit_handler env a (body\<lparr>b_etag := None\<rparr>) w)))
        = Some (file\<lparr>etag := None,
                     created_by :=
                       Some (if authType a = ''admin'' then userId a else ''apikey:'' @ userId a),
                     remark := (if truthy_str (b_remark body) then b_remark body else None),
                     password := (if truthy_str (b_password body)
                                  then map_option (hashPassword env) (b_password body)
                                  else None),
                     expires_at :=
                       (if 0 < num_or_zero (b_expires_in body)
                        then Some (expiresAfterHours env
                                     (parseInt (num_or_zero (b_expires_in body))))
                        else None),
                     max_views := (if truthy_num (b_max_views body)
                                   then Some (parseInt (num_or_zero (b_max_views body)))
                                   else None),
                     file_size := (if truthy_num (b_size body)
                                   then max 0 (parseInt (num_or_zero (b_size body)))
                                   else file_size file)\<rparr>) \<and>
      (t \<noteq> [] \<longrightarrow>
         find (\<lambda>f. file_id f = fid)
              (files (snd (commit_handler env a (body\<lparr>b_etag := Some t\<rparr>) w)))
           = map_option (\<lambda>f. f\<lparr>etag := Some t\<rparr>)
               (find (\<lambda>f. file_id f = fid)
                  (files (snd (commit_handler env a (body\<lparr>b_etag := None\<rparr>) w))))))"
proof (cases "\<exists>fid file s3Config. commit_reaches_capacity_check a body w fid file s3Config")
  case False
  then have same: "commit_handler env a (body\<lparr>b_etag := e\<rparr>) w = commit_handler env a body w"
    for e
    by (rule commit_handler_unreached)
  have "isl (fst (commit_handler env a body w))"
  proof (rule ccontr)
    assume "\<not> isl (fst (commit_handler env a body w))"
    then obtain r where "fst (commit_handler env a body w) = Inr r"
      by (cases "fst (commit_handler env a body w)") auto
    from commit_handler_success[OF this] False show False by blast
  qed
  then show ?thesis by (simp add: same)
next
  case True
  then obtain fid row s3Config
    where reach: "commit_reaches_capacity_check a body w fid row s3Config"
    by blast
  then have id: "b_file_id body = Some fid"
    and f: "find (\<lambda>f. file_id f = fid) (files w) = Some row"
    by (simp_all add: commit_reaches_capacity_check_def)
  have run: "commit_handler env a (body\<lparr>b_etag := e\<rparr>) w =
     (case commit_capacity_check s3Config row (b_size body) w of
        Some err \<Rightarrow> (Inl err, commit_rollback env s3Config row w)
      | None \<Rightarrow> (Inr (commit_answer env body (commit_update env a body row)),
                 update_file_rows fid (\<lambda>f. f\<lparr>etag := str_or_null e\<rparr>)
                   (commit_persist env a body fid s3Config row w)))" for e
    using commit_handler_from_capacity_check[of a "body\<lparr>b_etag := e\<rparr>" w fid row s3Config env]
      reach
    by (simp add: commit_update_etag commit_persist_etag split: option.splits)
  show ?thesis
  proof (cases "commit_capacity_check s3Config row (b_size body) w")
    case (Some err)
    then show ?thesis by (simp add: run)
  next
    case None
    have twice: "update_file_rows fid (\<lambda>f. f\<lparr>etag := None\<rparr>)
          (update_file_rows fid (\<lambda>f. f\<lparr>etag := x\<rparr>) w')
        = update_file_rows fid (\<lambda>f. f\<lparr>etag := None\<rparr>) w'" for w' x
      by (simp add: update_file_rows_def o_def cong: map_cong)
    have found: "find (\<lambda>f. file_id f = fid)
        (files (update_file_rows fid (\<lambda>f. f\<lparr>etag := x\<rparr>)
           (commit_persist env a body fid s3Config row w)))
        = Some ((commit_update env a body row)\<lparr>etag := x\<rparr>)" for x
      using find_map_update[of "\<lambda>f. f\<lparr>etag := x\<rparr>" fid
          "files (commit_persist env a body fid s3Config row w)"]
      by (simp add: update_file_rows_def find_commit_persist f)
    show ?thesis
      using id f
      by (simp add: run None str_or_null_def twice found commit_update_fields)
  qed
qed

text \<open>A commit by the key that created the placeholder, without ETag, with size 4,
  password, remark, view limit 3 and an expiry of 24 hours.\<close>

theorem commit_without_etag_witness:
  "\<not> isl (fst (commit_handler env_clock (key_caller ''k1'')
       ((commit_request (Some ''e0'') (Some 4) (Some 24))\<lparr>b_etag := None\<rparr>) (world_with None))) \<and>
   b_file_id (commit_request (Some ''e0'') (Some 4) (Some 24)) = Some ''f1'' \<and>
   find (\<lambda>f. file_id f = ''f1'') (files (world_with None)) = Some file_X \<and>
   find (\<lambda>f. file_id f = ''f1'')
     (files (snd (commit_handler env_clock (key_caller ''k1'')
        ((commit_request (Some ''e0'') (Some 4) (Some 24))\<lparr>b_etag := None\<rparr>) (world_with None))))
     = Some (file_X\<lparr>etag := None, created_by := Some ''apikey:k1'', remark := Some ''note'',
               password := Some ''h(pw2)'',
               expires_at := Some ''2025-01-02T00:00:00.000Z'', max_views := Some 3,
               file_size := 4\<rparr>) \<and>
   find (\<lambda>f. file_id f = ''f1'')
     (files (snd (commit_handler env_clock (key_caller ''k1'')
        ((commit_request (Some ''e0'') (Some 4) (Some 24))\<lparr>b_etag := Some ''e0''\<rparr>)
        (world_with None))))
     = Some (file_X\<lparr>etag := Some ''e0'', created_by := Some ''apikey:k1'',
               remark := Some ''note'', password := Some ''h(pw2)'',
               expires_at := Some ''2025-01-02T00:00:00.000Z'', max_views := Some 3,
               file_size := 4\<rparr>)"
proof -
  let ?body = "commit_request (Some ''e0'') (Some 4) (Some 24)"
  have reach: "commit_reaches_capacity_check (key_caller ''k1'')
      (?body\<lparr>b_etag := None\<rparr>) (world_with None) ''f1'' file_X (store None)"
    by (simp add: commit_reaches_capacity_check_def commit_authorised_def key_caller_def
        commit_request_def world_with_def file_X_def store_def commit_s3Config_def
        truthy_str_def)
  have ok: "\<not> isl (fst (commit_handler env_clock (key_caller ''k1'')
       (?body\<lparr>b_etag := None\<rparr>) (world_with None)))"
    by (simp add: commit_handler_from_capacity_check[OF reach] commit_capacity_check_def
        store_def)
  have id: "b_file_id ?body = Some ''f1''"
    by (simp add: commit_request_def)
  have f: "find (\<lambda>f. file_id f = ''f1'') (files (world_with None)) = Some file_X"
    by (simp add: world_with_def file_X_def)
  have fields: "authType (key_caller ''k1'') \<noteq> ''admin''" "userId (key_caller ''k1'') = ''k1''"
    "b_remark ?body = Some ''note''" "b_password ?body = Some ''pw2''"
    "b_expires_in ?body = Some 24" "b_max_views ?body = Some 3" "b_size ?body = Some 4"
    "hashPassword env_clock ''pw2'' = ''h(pw2)''"
    "expiresAfterHours env_clock 24 = ''2025-01-02T00:00:00.000Z''"
    "parseInt 24 = 24" "parseInt 3 = 3" "parseInt 4 = 4"
    by (simp_all add: key_caller_def commit_request_def parseInt_def env_clock_def env0_def)
  note spec = commit_without_etag[of env_clock "key_caller ''k1''" ?body "world_with None"
      "''e0''", THEN conjunct2, THEN conjunct2, THEN conjunct2, rule_format,
      of "''f1''" file_X, OF conjI[OF ok conjI[OF id f]]]
  have without: "find (\<lambda>f. file_id f = ''f1'')
     (files (snd (commit_handler env_clock (key_caller ''k1'')
        (?body\<lparr>b_etag := None\<rparr>) (world_with None))))
     = Some (file_X\<lparr>etag := None, created_by := Some ''apikey:k1'', remark := Some ''note'',
               password := Some ''h(pw2)'',
               expires_at := Some ''2025-01-02T00:00:00.000Z'', max_views := Some 3,
               file_size := 4\<rparr>)"
    using spec[THEN conjunct1]
    by (simp add: fields truthy_str_def truthy_num_def num_or_zero_def)
  have with_etag: "find (\<lambda>f. file_id f = ''f1'')
     (files (snd (commit_handler env_clock (key_caller ''k1'')
        (?body\<lparr>b_etag := Some ''e0''\<rparr>) (world_with None))))
     = Some (file_X\<lparr>etag := Some ''e0'', created_by := Some ''apikey:k1'',
               remark := Some ''note'', password := Some ''h(pw2)'',
               expires_at := Some ''2025-01-02T00:00:00.000Z'', max_views := Some 3,
               file_size := 4\<rparr>)"
    using spec[THEN conjunct2] unfolding without by simp
  from ok id f without with_etag show ?thesis
    by - (intro conjI, assumption+)
qed

subsection \<open>Quota admission\<close>

lemma storagePath_of_error:
  "storagePath_of env a s3Config customPath namePart = Inl e \<Longrightarrow> e = NoStoragePermission"
  by (auto simp: storagePath_of_def split: if_splits option.splits)

lemma presign_register_error:
  assumes "fst (presign_register env a body s3Config s3ConfigId fname w) = Inl e"
  shows "e = SlugConflict \<or> (\<exists>se. e = InternalSlugError se) \<or> e = NoStoragePermission"
  using assms
  by (auto simp: presign_register_def split: sum.splits if_splits dest: storagePath_of_error)

lemma presign_register_no_quota_error:
  "\<not> is_capacity_error (fst (presign_register env a body s3Config s3ConfigId fname w))"
  "\<not> is_size_limit_error (fst (presign_register env a body s3Config s3ConfigId fname w))"
proof -
  let ?r = "fst (presign_register env a body s3Config s3ConfigId fname w)"
  have "\<not> is_capacity_error ?r \<and> \<not> is_size_limit_error ?r"
  proof (cases ?r)
    case (Inl e)
    from presign_register_error[OF Inl] show ?thesis
      by (auto simp: Inl)
  next
    case (Inr r)
    then show ?thesis by simp
  qed
  then show "\<not> is_capacity_error ?r" "\<not> is_size_limit_error ?r" by simp_all
qed


lemma presign_capacity_check_iff:
  "(presign_capacity_check s3Config s3ConfigId sz w \<noteq> None) =
     (truthy_num sz \<and>
      quota_rejects (total_storage_bytes s3Config) (currentUsage (files w) s3ConfigId)
        (parseInt (num_or_zero sz)))"
  by (simp add: presign_capacity_check_def quota_rejects_def split: option.splits)

lemma presign_handler_from_capacity_check:
  assumes "presign_reaches_capacity_check body w s3ConfigId fname s3Config"
  shows "presign_handler env a body w =
     (case presign_capacity_check s3Config s3ConfigId (p_size body) w of
        Some err \<Rightarrow> (Inl err, w)
      | None \<Rightarrow>
          if isAdmin a \<and> admin_id s3Config \<noteq> Some (userId a) then (Inl NotYourS3Config, w)
          else presign_register env a body s3Config s3ConfigId fname w)"
proof -
  from assms have c: "p_s3_config_id body = Some s3ConfigId" "s3ConfigId \<noteq> []"
    and n: "p_filename body = Some fname" "fname \<noteq> []"
    and s: "\<not> (truthy_num (p_size body) \<and> num_or_zero (p_size body) > maxUploadSizeBytes w)"
    and f: "find (\<lambda>c. config_id c = s3ConfigId) (s3_configs w) = Some s3Config"
    by (simp_all add: presign_reaches_capacity_check_def)
  show ?thesis
    unfolding presign_handler_def
    by (simp only: c n s f option.case if_False)
qed


lemma presign_rejected_world:
  assumes "presign_reaches_capacity_check body w s3ConfigId fname s3Config"
    and "is_capacity_error (fst (presign_handler env a body w))"
  shows "snd (presign_handler env a body w) = w"
proof (cases "presign_capacity_check s3Config s3ConfigId (p_size body) w")
  case None
  with assms show ?thesis
    by (simp add: presign_handler_from_capacity_check[OF assms(1)]
        presign_register_no_quota_error split: if_splits)
next
  case (Some err)
  then show ?thesis
    by (simp add: presign_handler_from_capacity_check[OF assms(1)])
qed







lemma direct_handler_from_capacity_check:
  assumes "direct_reaches_capacity_check a req w s3ConfigId s3Config"
  shows "direct_handler env a req w =
     (case direct_capacity_check s3Config s3ConfigId (int (d_byteLength req)) w of
        Some err \<Rightarrow> (Inl err, w)
      | None \<Rightarrow> direct_register env a req s3Config s3ConfigId w)"
proof -
  from assms have c: "direct_select_config a (q_s3_config_id req) (s3_configs w) = Inr s3ConfigId"
    and f: "find (\<lambda>c. config_id c = s3ConfigId) (s3_configs w) = Some s3Config"
    and g: "\<not> (isAdmin a \<and> admin_id s3Config \<noteq> Some (userId a))"
      "\<not> (authType a = ''apikey'' \<and> is_public s3Config \<noteq> 1)"
      "\<not> (int (d_byteLength req) > maxUploadSizeBytes w)"
    by (simp_all add: direct_reaches_capacity_check_def)
  show ?thesis
    unfolding direct_handler_def
    by (simp only: c f g sum.case option.case if_False)
qed








lemma presign_request_fields [simp]:
  "p_s3_config_id (presign_request sl ov sz) = Some ''c1''"
  "p_filename (presign_request sl ov sz) = Some ''new.txt''"
  "p_size (presign_request sl ov sz) = sz"
  "p_path (presign_request sl ov sz) = None"
  "p_slug (presign_request sl ov sz) = sl"
  "p_override (presign_request sl ov sz) = ov"
  by (simp_all add: presign_request_def)

lemma presign_reaches_in_scenario:
  "presign_reaches_capacity_check (presign_request sl ov sz) (world_with cap) ''c1'' ''new.txt''
     (store cap) = (\<not> (truthy_num sz \<and> num_or_zero sz > 104857600))"
  by (simp add: presign_reaches_capacity_check_def presign_request_def world_with_def
      store_def maxUploadSizeBytes_def DEFAULT_MAX_UPLOAD_SIZE_MB_def)




lemma presign_register_in_scenario:
  "presign_register env0 (key_caller uid) (presign_request (Some ''Y'') None sz) (store cap)
     ''c1'' ''new.txt'' w
   = (if slug_exists (files w) ''Y'' then (Inl SlugConflict, w)
      else (Inr \<lparr>pr_file_id = ''f2'', pr_upload_url = ''https://put/up/sid-new.txt'',
                 pr_storage_path = ''up/sid-new.txt'', pr_s3_url = ''https://s3/up/sid-new.txt'',
                 pr_slug = ''Y'', pr_provider_type = ''R2'', pr_contentType = ''text/plain''\<rparr>,
            w\<lparr>files := files w @
               [\<lparr>file_id = ''f2'', slug = ''Y'', filename = ''new.txt'',
                 storage_path = ''up/sid-new.txt'', s3_url = ''https://s3/up/sid-new.txt'',
                 s3_config_id = ''c1'', mimetype = ''text/plain'', file_size = 0, etag = None,
                 created_by = Some (''apikey:'' @ uid), remark = None, password = None,
                 expires_at = None, max_views = None, use_proxy = None\<rparr>]\<rparr>))"
  by (simp add: presign_register_def generateUniqueFileSlug_def slugFormatRegex_def
      slug_char_def presign_override_def storagePath_of_def key_caller_def customPath_of_def
      folderPath_def safeFileName_of_def presign_placeholder_def presign_answer_def env0_def
      store_def presign_created_by_def suffix_to_prefix)

lemma commit_reaches_in_scenario:
  "commit_reaches_capacity_check (key_caller ''k1'') (commit_request et sz ex) (world_with cap)
     ''f1'' file_X (store cap)"
  by (simp add: commit_reaches_capacity_check_def commit_authorised_def key_caller_def
      commit_request_def world_with_def file_X_def store_def commit_s3Config_def truthy_str_def)

lemma direct_reaches_in_scenario:
  "direct_reaches_capacity_check (key_caller uid) (direct_upload sl ov) (world_with cap) ''c1''
     (store cap)"
  by (simp add: direct_reaches_capacity_check_def direct_select_config_def key_caller_def
      direct_upload_def world_with_def store_def maxUploadSizeBytes_def
      DEFAULT_MAX_UPLOAD_SIZE_MB_def)


subsection \<open>Presign without a declared size\<close>

lemma presign_register_success:
  assumes "fst (presign_register env a body s3Config s3ConfigId fname w) = Inr r"
  shows "\<exists>p. snd (presign_register env a body s3Config s3ConfigId fname w)
               = (presign_override env body w)
                   \<lparr>files := files (presign_override env body w) @ [p]\<rparr> \<and>
             file_id p = pr_file_id r \<and> slug p = pr_slug r \<and> s3_config_id p = s3ConfigId \<and>
             file_size p = 0 \<and> etag p = None \<and> created_by p = presign_created_by a"
  using assms
  by (auto simp: presign_register_def presign_placeholder_def presign_answer_def
      split: sum.splits if_splits)

lemma presign_handler_success:
  assumes "fst (presign_handler env a body w) = Inr r"
  shows "\<exists>s3ConfigId fname s3Config.
           presign_reaches_capacity_check body w s3ConfigId fname s3Config \<and>
           presign_handler env a body w
             = presign_register env a body s3Config s3ConfigId fname w"
  using assms
  unfolding presign_handler_def presign_reaches_capacity_check_def
  by (auto split: option.splits if_splits)

lemma presign_success_placeholder:
  assumes "fst (presign_handler env a body w) = Inr r"
  shows "\<exists>p. snd (presign_handler env a body w)
               = (presign_override env body w)
                   \<lparr>files := files (presign_override env body w) @ [p]\<rparr> \<and>
             file_id p = pr_file_id r \<and> slug p = pr_slug r \<and>
             Some (s3_config_id p) = p_s3_config_id body \<and>
             file_size p = 0 \<and> etag p = None \<and> created_by p = presign_created_by a"
proof -
  from presign_handler_success[OF assms] obtain s3ConfigId fname s3Config
    where reach: "presign_reaches_capacity_check body w s3ConfigId fname s3Config"
      and run: "presign_handler env a body w
                  = presign_register env a body s3Config s3ConfigId fname w"
    by blast
  from assms run have "fst (presign_register env a body s3Config s3ConfigId fname w) = Inr r"
    by simp
  from presign_register_success[OF this] reach show ?thesis
    by (auto simp: run presign_reaches_capacity_check_def)
qed

lemma presign_no_size_no_quota_error:
  assumes "\<not> truthy_num (p_size body)"
  shows "\<not> is_size_limit_error (fst (presign_handler env a body w))"
    and "\<not> is_capacity_error (fst (presign_handler env a body w))"
proof -
  have chk: "presign_capacity_check s3Config s3ConfigId (p_size body) w = None"
    for s3Config s3ConfigId
    using assms presign_capacity_check_iff[of s3Config s3ConfigId "p_size body" w] by simp
  show "\<not> is_size_limit_error (fst (presign_handler env a body w))"
    unfolding presign_handler_def
    using assms
    by (simp add: chk presign_register_no_quota_error split: option.splits)
  show "\<not> is_capacity_error (fst (presign_handler env a body w))"
    unfolding presign_handler_def
    using assms
    by (simp add: chk presign_register_no_quota_error split: option.splits)
qed

lemma presign_register_answer_cong:
  assumes "files w' = files w"
  shows "fst (presign_register env a body s3Config s3ConfigId fname w')
           = fst (presign_register env a body s3Config s3ConfigId fname w)"
  by (simp add: presign_register_def assms split: sum.splits)

lemma presign_no_size_limit_irrelevant:
  assumes "\<not> truthy_num (p_size body)"
  shows "fst (presign_handler env a body (w\<lparr>max_upload_size := m\<rparr>))
           = fst (presign_handler env a body w)"
proof -
  have chk: "presign_capacity_check s3Config s3ConfigId (p_size body) w0 = None"
    for s3Config s3ConfigId w0
    using assms presign_capacity_check_iff[of s3Config s3ConfigId "p_size body" w0] by simp
  have reg: "fst (presign_register env a body s3Config s3ConfigId fname
                    (w\<lparr>max_upload_size := m\<rparr>))
      = fst (presign_register env a body s3Config s3ConfigId fname w)"
    for s3Config s3ConfigId fname
    by (rule presign_register_answer_cong) simp
  show ?thesis
    unfolding presign_handler_def
    using assms by (simp add: chk reg split: option.splits)
qed

text \<open>
  \<^bold>\<open>C10\<close> (presign without a size). When the body of a presign request has no
  size, or a falsy one, the handler answers neither the size-limit error nor the capacity
  error: past the required fields and the lookup of the store it goes straight to the
  ownership check and the registration, whatever the upload limit, the ceiling and the
  usage are. Every successful presign inserts its placeholder row with size 0 and no
  ETag. A size-limit or capacity error at presign implies a truthy declared size. The
  answer to a request without a size is the same under every value of the upload-limit
  setting.
\<close>

theorem presign_without_size:
  "(\<not> truthy_num (p_size body) \<longrightarrow>
      \<not> is_size_limit_error (fst (presign_handler env a body w)) \<and>
      \<not> is_capacity_error (fst (presign_handler env a body w))) \<and>
   (\<not> truthy_num (p_size body) \<and>
    p_s3_config_id body = Some s3ConfigId \<and> s3ConfigId \<noteq> [] \<and>
    p_filename body = Some fname \<and> fname \<noteq> [] \<and>
    find (\<lambda>c. config_id c = s3ConfigId) (s3_configs w) = Some s3Config \<longrightarrow>
      presign_handler env a body w
        = (if isAdmin a \<and> admin_id s3Config \<noteq> Some (userId a) then (Inl NotYourS3Config, w)
           else presign_register env a body s3Config s3ConfigId fname w)) \<and>
   (\<forall>r. fst (presign_handler env a body w) = Inr r \<longrightarrow>
      (\<exists>p. files (snd (presign_handler env a body w))
              = files (presign_override env body w) @ [p] \<and>
           file_id p = pr_file_id r \<and> file_size p = 0 \<and> etag p = None)) \<and>
   (is_size_limit_error (fst (presign_handler env a body w))
      \<or> is_capacity_error (fst (presign_handler env a body w))
    \<longrightarrow> truthy_num (p_size body)) \<and>
   (\<not> truthy_num (p_size body) \<longrightarrow>
      (\<forall>m. fst (presign_handler env a body (w\<lparr>max_upload_size := m\<rparr>))
             = fst (presign_handler env a body w)))"
proof -
  have skipped: "presign_handler env a body w
        = (if isAdmin a \<and> admin_id s3Config \<noteq> Some (userId a) then (Inl NotYourS3Config, w)
           else presign_register env a body s3Config s3ConfigId fname w)"
    if falsy: "\<not> truthy_num (p_size body)"
      and fields: "p_s3_config_id body = Some s3ConfigId" "s3ConfigId \<noteq> []"
        "p_filename body = Some fname" "fname \<noteq> []"
      and cfg: "find (\<lambda>c. config_id c = s3ConfigId) (s3_configs w) = Some s3Config"
  proof -
    from that have "presign_reaches_capacity_check body w s3ConfigId fname s3Config"
      by (simp add: presign_reaches_capacity_check_def)
    from presign_handler_from_capacity_check[OF this, of env a]
      presign_capacity_check_iff[of s3Config s3ConfigId "p_size body" w] falsy
    show ?thesis by simp
  qed
  have placeholder: "\<exists>p. files (snd (presign_handler env a body w))
              = files (presign_override env body w) @ [p] \<and>
           file_id p = pr_file_id r \<and> file_size p = 0 \<and> etag p = None"
    if "fst (presign_handler env a body w) = Inr r" for r
    using presign_success_placeholder[OF that] by auto
  from skipped placeholder presign_no_size_no_quota_error[of body env a w]
    presign_no_size_limit_irrelevant[of body env a _ w]
  show ?thesis by blast
qed

theorem presign_without_size_witness:
  "\<not> truthy_num (p_size (presign_request (Some ''Y'') None None)) \<and>
   find (\<lambda>c. config_id c = ''c1'') (s3_configs ((world_with (Some 5))\<lparr>max_upload_size := Some 0\<rparr>))
     = Some (store (Some 5)) \<and>
   maxUploadSizeBytes ((world_with (Some 5))\<lparr>max_upload_size := Some 0\<rparr>) = 0 \<and>
   currentUsage (files ((world_with (Some 5))\<lparr>max_upload_size := Some 0\<rparr>)) ''c1'' > 5 \<and>
   \<not> isl (fst (presign_handler env0 (key_caller ''k2'') (presign_request (Some ''Y'') None None)
     ((world_with (Some 5))\<lparr>max_upload_size := Some 0\<rparr>))) \<and>
   map (\<lambda>p. (file_id p, file_size p, etag p))
     (files (snd (presign_handler env0 (key_caller ''k2'') (presign_request (Some ''Y'') None None)
        ((world_with (Some 5))\<lparr>max_upload_size := Some 0\<rparr>))))
     = [(''f1'', 10, Some ''e1''), (''f2'', 0, None)]"
proof -
  let ?w = "(world_with (Some 5))\<lparr>max_upload_size := Some 0\<rparr>"
  let ?body = "presign_request (Some ''Y'') None None"
  have falsy: "\<not> truthy_num (p_size ?body)"
    by (simp add: truthy_num_def)
  have cfg: "find (\<lambda>c. config_id c = ''c1'') (s3_configs ?w) = Some (store (Some 5))"
    by (simp add: world_with_def store_def)
  have limit: "maxUploadSizeBytes ?w = 0"
    by (simp add: maxUploadSizeBytes_def)
  have usage: "currentUsage (files ?w) ''c1'' > 5"
    by (simp add: currentUsage_def world_with_def file_X_def)
  have not_admin: "\<not> isAdmin (key_caller ''k2'')"
    by (simp add: key_caller_def)
  have fields: "p_s3_config_id ?body = Some ''c1''" "''c1'' \<noteq> []"
    "p_filename ?body = Some ''new.txt''" "''new.txt'' \<noteq> []"
    by simp_all
  from presign_without_size[of ?body env0 "key_caller ''k2''" ?w "''c1''" "''new.txt''"
      "store (Some 5)", THEN conjunct2, THEN conjunct1] falsy fields cfg
  have "presign_handler env0 (key_caller ''k2'') ?body ?w
      = (if isAdmin (key_caller ''k2'')
            \<and> admin_id (store (Some 5)) \<noteq> Some (userId (key_caller ''k2''))
         then (Inl NotYourS3Config, ?w)
         else presign_register env0 (key_caller ''k2'') ?body (store (Some 5)) ''c1''
                ''new.txt'' ?w)"
    by blast
  with not_admin
  have run: "presign_handler env0 (key_caller ''k2'') ?body ?w
      = presign_register env0 (key_caller ''k2'') ?body (store (Some 5)) ''c1'' ''new.txt'' ?w"
    by simp
  have fresh: "\<not> slug_exists (files ?w) ''Y''"
    by (simp add: slug_exists_def world_with_def file_X_def)
  have ok: "\<not> isl (fst (presign_handler env0 (key_caller ''k2'') ?body ?w))"
    unfolding run presign_register_in_scenario using fresh by simp
  have rows: "map (\<lambda>p. (file_id p, file_size p, etag p))
      (files (snd (presign_handler env0 (key_caller ''k2'') ?body ?w)))
      = [(''f1'', 10, Some ''e1''), (''f2'', 0, None)]"
    unfolding run presign_register_in_scenario using fresh
    by (simp add: world_with_def file_X_def)
  from falsy cfg limit usage ok rows show ?thesis
    by simp
qed

subsection \<open>Creator identity\<close>

lemma files_clearCache [simp]: "files (clearCache c w) = files w"
  by (simp add: clearCache_def)

lemma files_updateParents [simp]:
  "files (updateParentDirectoriesModifiedTime s3Config path w) = files w"
  by (simp add: updateParentDirectoriesModifiedTime_def)

lemma files_insert_password [simp]: "files (insert_password fid pw w) = files w"
  by (simp add: insert_password_def split: option.splits)

lemma files_delete_password_row [simp]: "files (delete_password_row fid w) = files w"
  by (simp add: delete_password_row_def)

lemma files_delete_superseded:
  "set (files (delete_superseded env existingFile w)) \<subseteq> set (files w)"
  by (auto simp: delete_superseded_def delete_file_row_def split: option.splits)

lemma files_presign_override:
  "set (files (presign_override env body w)) \<subseteq> set (files w)"
  using files_delete_superseded
  by (auto simp: presign_override_def split: option.splits)

lemma files_direct_override:
  "direct_override env a req w = Inr w1 \<Longrightarrow> set (files w1) \<subseteq> set (files w)"
  using files_delete_superseded
  by (auto simp: direct_override_def split: option.splits if_splits)

lemma direct_register_success:
  assumes "fst (direct_register env a req s3Config s3ConfigId w) = Inr r"
  shows "\<exists>w1 p. direct_override env a req w = Inr w1 \<and>
           files (snd (direct_register env a req s3Config s3ConfigId w)) = files w1 @ [p] \<and>
           file_id p = dr_id r \<and> slug p = dr_slug r \<and>
           created_by p = Some (currentCreator a) \<and> dr_created_by r = currentCreator a \<and>
           expires_at p = direct_expiresAt env (q_expires_in req) \<and>
           file_size p = int (d_byteLength req)"
  using assms
  by (auto simp: direct_register_def direct_store_def direct_record_def direct_answer_def
      split: sum.splits if_splits upload_outcome.splits)

lemma direct_handler_success:
  assumes "fst (direct_handler env a req w) = Inr r"
  shows "\<exists>s3ConfigId s3Config.
           direct_reaches_capacity_check a req w s3ConfigId s3Config \<and>
           direct_handler env a req w = direct_register env a req s3Config s3ConfigId w"
  using assms
  unfolding direct_handler_def direct_reaches_capacity_check_def
  by (auto split: sum.splits option.splits if_splits)

lemma direct_success_row:
  assumes "fst (direct_handler env a req w) = Inr r"
  shows "\<exists>pre p. files (snd (direct_handler env a req w)) = pre @ [p] \<and>
           set pre \<subseteq> set (files w) \<and>
           file_id p = dr_id r \<and> slug p = dr_slug r \<and>
           created_by p = Some (currentCreator a) \<and> dr_created_by r = currentCreator a \<and>
           expires_at p = direct_expiresAt env (q_expires_in req) \<and>
           file_size p = int (d_byteLength req)"
proof -
  from direct_handler_success[OF assms] obtain s3ConfigId s3Config
    where run: "direct_handler env a req w = direct_register env a req s3Config s3ConfigId w"
    by blast
  with assms have "fst (direct_register env a req s3Config s3ConfigId w) = Inr r"
    by simp
  from direct_register_success[OF this] files_direct_override[of env a req w]
  show ?thesis
    unfolding run by blast
qed

lemma commit_success_rows:
  assumes "\<not> isl (fst (commit_handler env a body w))"
  shows "\<exists>fid row. b_file_id body = Some fid \<and>
           find (\<lambda>f. file_id f = fid) (files w) = Some row \<and> commit_authorised a row \<and>
           files (snd (commit_handler env a body w))
             = map (\<lambda>f. if file_id f = fid then commit_update env a body f else f) (files w)"
proof -
  from assms obtain r where "fst (commit_handler env a body w) = Inr r"
    by (cases "fst (commit_handler env a body w)") auto
  from commit_handler_success[OF this] obtain fid row s3Config
    where reach: "commit_reaches_capacity_check a body w fid row s3Config"
      and chk: "commit_capacity_check s3Config row (b_size body) w = None"
    by blast
  from reach have "b_file_id body = Some fid"
    "find (\<lambda>f. file_id f = fid) (files w) = Some row" "commit_authorised a row"
    by (simp_all add: commit_reaches_capacity_check_def)
  moreover have "files (snd (commit_handler env a body w))
      = map (\<lambda>f. if file_id f = fid then commit_update env a body f else f) (files w)"
    by (simp add: commit_handler_from_capacity_check[OF reach] chk files_commit_persist)
  ultimately show ?thesis by blast
qed

lemma commit_keeps_creator:
  assumes "commit_authorised a row" and "truthy_str (created_by row)"
    and "caller_is_admin a \<or> caller_is_key a"
  shows "created_by row = Some (commit_creator a)"
  using assms
  by (auto simp: commit_authorised_def caller_is_admin_def caller_is_key_def commit_creator_def)

text \<open>
  \<^bold>\<open>C9\<close> (creator identity), as the code has it. The three operations write
  \<open>created_by\<close> as the bare identifier of an administrator and as \<open>apikey:<id>\<close> for an
  API key. The row a presign or a direct upload inserts carries the caller's identity, and
  the rows before it are rows of the old table, unchanged. A commit writes the caller's
  identity into the committed row and leaves the other rows alone; when the row already
  had a creator, that creator is the committing caller, so the value does not change.
\<close>

theorem creator_identity:
  "(caller_is_admin a \<longrightarrow>
      presign_created_by a = Some (userId a) \<and> commit_creator a = userId a
      \<and> currentCreator a = userId a) \<and>
   (caller_is_key a \<longrightarrow>
      presign_created_by a = Some (''apikey:'' @ userId a)
      \<and> commit_creator a = ''apikey:'' @ userId a
      \<and> currentCreator a = ''apikey:'' @ userId a) \<and>
   (\<forall>r. fst (presign_handler env a pbody w) = Inr r \<longrightarrow>
      (\<exists>pre p. files (snd (presign_handler env a pbody w)) = pre @ [p] \<and>
         set pre \<subseteq> set (files w) \<and>
         file_id p = pr_file_id r \<and> created_by p = presign_created_by a)) \<and>
   (\<not> isl (fst (commit_handler env a cbody w)) \<longrightarrow>
      (\<exists>fid row. b_file_id cbody = Some fid \<and>
         find (\<lambda>f. file_id f = fid) (files w) = Some row \<and>
         (\<forall>f \<in> set (files (snd (commit_handler env a cbody w))).
            if file_id f = fid then created_by f = Some (commit_creator a)
            else f \<in> set (files w)) \<and>
         (truthy_str (created_by row) \<and> (caller_is_admin a \<or> caller_is_key a) \<longrightarrow>
            created_by row = Some (commit_creator a)))) \<and>
   (\<forall>r. fst (direct_handler env a req w) = Inr r \<longrightarrow>
      (\<exists>pre p. files (snd (direct_handler env a req w)) = pre @ [p] \<and>
         set pre \<subseteq> set (files w) \<and>
         file_id p = dr_id r \<and> created_by p = Some (currentCreator a)
         \<and> dr_created_by r = currentCreator a))"
proof -
  have admin: "presign_created_by a = Some (userId a) \<and> commit_creator a = userId a
      \<and> currentCreator a = userId a" if "caller_is_admin a"
    using that
    by (simp add: caller_is_admin_def presign_created_by_def commit_creator_def currentCreator_def)
  have key: "presign_created_by a = Some (''apikey:'' @ userId a)
      \<and> commit_creator a = ''apikey:'' @ userId a
      \<and> currentCreator a = ''apikey:'' @ userId a" if "caller_is_key a"
    using that
    by (simp add: caller_is_key_def presign_created_by_def commit_creator_def currentCreator_def)
  have presign: "\<exists>pre p. files (snd (presign_handler env a pbody w)) = pre @ [p] \<and>
         set pre \<subseteq> set (files w) \<and>
         file_id p = pr_file_id r \<and> created_by p = presign_created_by a"
    if "fst (presign_handler env a pbody w) = Inr r" for r
  proof -
    from presign_success_placeholder[OF that] obtain p
      where "snd (presign_handler env a pbody w)
               = (presign_override env pbody w)
                   \<lparr>files := files (presign_override env pbody w) @ [p]\<rparr>"
        and "file_id p = pr_file_id r" "created_by p = presign_created_by a"
      by blast
    with files_presign_override[of env pbody w] show ?thesis
      by auto
  qed
  have commit: "\<exists>fid row. b_file_id cbody = Some fid \<and>
         find (\<lambda>f. file_id f = fid) (files w) = Some row \<and>
         (\<forall>f \<in> set (files (snd (commit_handler env a cbody w))).
            if file_id f = fid then created_by f = Some (commit_creator a)
            else f \<in> set (files w)) \<and>
         (truthy_str (created_by row) \<and> (caller_is_admin a \<or> caller_is_key a) \<longrightarrow>
            created_by row = Some (commit_creator a))"
    if "\<not> isl (fst (commit_handler env a cbody w))"
  proof -
    from commit_success_rows[OF that] obtain fid row
      where id: "b_file_id cbody = Some fid"
        and f: "find (\<lambda>f. file_id f = fid) (files w) = Some row"
        and au: "commit_authorised a row"
        and fs: "files (snd (commit_handler env a cbody w))
             = map (\<lambda>f. if file_id f = fid then commit_update env a cbody f else f) (files w)"
      by blast
    have rows: "\<forall>f \<in> set (files (snd (commit_handler env a cbody w))).
            if file_id f = fid then created_by f = Some (commit_creator a)
            else f \<in> set (files w)"
      unfolding fs by (auto simp: commit_update_def)
    from id f rows commit_keeps_creator[OF au] show ?thesis
      by blast
  qed
  have direct: "\<exists>pre p. files (snd (direct_handler env a req w)) = pre @ [p] \<and>
         set pre \<subseteq> set (files w) \<and>
         file_id p = dr_id r \<and> created_by p = Some (currentCreator a)
         \<and> dr_created_by r = currentCreator a"
    if "fst (direct_handler env a req w) = Inr r" for r
    using direct_success_row[OF that] by blast
  from admin key presign commit direct show ?thesis
    by blast
qed

lemma presign_register_by_admin_in_scenario:
  "presign_register env0 (admin_caller uid) (presign_request (Some ''Y'') None sz) (store cap)
     ''c1'' ''new.txt'' w
   = (if slug_exists (files w) ''Y'' then (Inl SlugConflict, w)
      else (Inr \<lparr>pr_file_id = ''f2'', pr_upload_url = ''https://put/up/sid-new.txt'',
                 pr_storage_path = ''up/sid-new.txt'', pr_s3_url = ''https://s3/up/sid-new.txt'',
                 pr_slug = ''Y'', pr_provider_type = ''R2'', pr_contentType = ''text/plain''\<rparr>,
            w\<lparr>files := files w @
               [\<lparr>file_id = ''f2'', slug = ''Y'', filename = ''new.txt'',
                 storage_path = ''up/sid-new.txt'', s3_url = ''https://s3/up/sid-new.txt'',
                 s3_config_id = ''c1'', mimetype = ''text/plain'', file_size = 0, etag = None,
                 created_by = Some uid, remark = None, password = None,
                 expires_at = None, max_views = None, use_proxy = None\<rparr>]\<rparr>))"
  by (simp add: presign_register_def generateUniqueFileSlug_def slugFormatRegex_def
      slug_char_def presign_override_def storagePath_of_def admin_caller_def customPath_of_def
      folderPath_def safeFileName_of_def presign_placeholder_def presign_answer_def env0_def
      store_def presign_created_by_def suffix_to_prefix)

lemma fresh_Y: "\<not> slug_exists (files (world_with cap)) ''Y''"
  by (simp add: slug_exists_def world_with_def file_X_def)

text \<open>An administrator's presign stores the bare identifier \<open>admin1\<close>, which does not
  start with \<open>admin:\<close>.\<close>

theorem admin_creator_is_bare_id:
  "caller_is_admin (admin_caller ''admin1'') \<and>
   \<not> isl (fst (presign_handler env0 (admin_caller ''admin1'')
            (presign_request (Some ''Y'') None None) (world_with None))) \<and>
   map created_by (files (snd (presign_handler env0 (admin_caller ''admin1'')
            (presign_request (Some ''Y'') None None) (world_with None))))
     = [Some ''apikey:k1'', Some ''admin1''] \<and>
   \<not> prefix ''admin:'' ''admin1''"
proof -
  let ?body = "presign_request (Some ''Y'') None None"
  have reach: "presign_reaches_capacity_check ?body (world_with None) ''c1'' ''new.txt''
      (store None)"
    by (simp add: presign_reaches_in_scenario truthy_num_def)
  have owner: "admin_id (store None) = Some (userId (admin_caller ''admin1''))"
    by (simp add: admin_caller_def store_def)
  have chk: "presign_capacity_check (store None) ''c1'' sz (world_with None) = None" for sz
    by (simp add: presign_capacity_check_def store_def)
  have run: "presign_handler env0 (admin_caller ''admin1'') ?body (world_with None)
      = presign_register env0 (admin_caller ''admin1'') ?body (store None) ''c1'' ''new.txt''
          (world_with None)"
    using owner by (simp add: presign_handler_from_capacity_check[OF reach] chk)
  have "caller_is_admin (admin_caller ''admin1'')"
    by (simp add: caller_is_admin_def admin_caller_def)
  moreover have "\<not> isl (fst (presign_handler env0 (admin_caller ''admin1'') ?body
      (world_with None)))"
    unfolding run presign_register_by_admin_in_scenario using fresh_Y by simp
  moreover have "map created_by (files (snd (presign_handler env0 (admin_caller ''admin1'')
      ?body (world_with None)))) = [Some ''apikey:k1'', Some ''admin1'']"
    unfolding run presign_register_by_admin_in_scenario using fresh_Y
    by (simp add: world_with_def file_X_def)
  ultimately show ?thesis by simp
qed

lemma direct_register_in_scenario:
  "direct_register env0 (key_caller uid) (direct_upload (Some ''Y'') None) (store cap) ''c1'' w
   = (if slug_exists (files w) ''Y'' then (Inl SlugConflict, w)
      else (Inr \<lparr>dr_id = ''f2'', dr_slug = ''Y'', dr_filename = ''new.txt'',
                 dr_mimetype = ''text/plain'', dr_size = 4, dr_remark = [],
                 dr_requires_password = False, dr_max_views = None, dr_expires_at = None,
                 dr_use_proxy = 1, dr_created_by = ''apikey:'' @ uid,
                 dr_used_original_filename = False\<rparr>,
            w\<lparr>files := files w @
               [\<lparr>file_id = ''f2'', slug = ''Y'', filename = ''new.txt'',
                 storage_path = ''up/sid-new.txt'', s3_url = ''https://s3/up/sid-new.txt'',
                 s3_config_id = ''c1'', mimetype = ''text/plain'', file_size = 4,
                 etag = Some ''e2'', created_by = Some (''apikey:'' @ uid), remark = Some [],
                 password = None, expires_at = None, max_views = None,
                 use_proxy = Some 1\<rparr>],
              objects := objects w @ [(''c1'', ''up/sid-new.txt'')],
              cache_cleared := cache_cleared w @ [''c1''],
              parents_touched := parents_touched w @ [(''c1'', ''up/sid-new.txt'')]\<rparr>))"
  by (simp add: direct_register_def generateUniqueFileSlug_def slugFormatRegex_def
      slug_char_def direct_override_def storagePath_of_def key_caller_def customPath_of_def
      folderPath_def safeFileName_of_def direct_namePart_def direct_store_def direct_record_def
      direct_answer_def direct_upload_def env0_def store_def currentCreator_def
      suffix_to_prefix upload_key_def etag_of_def strip_quotes_def insert_password_def
      clearCache_def updateParentDirectoriesModifiedTime_def passwordHash_of_def
      direct_expiresAt_def direct_maxViews_def direct_useProxy_def direct_remark_def
      num_or_zero_def)

lemma direct_by_key_in_scenario:
  "direct_handler env0 (key_caller uid) (direct_upload (Some ''Y'') None) (world_with None)
     = direct_register env0 (key_caller uid) (direct_upload (Some ''Y'') None) (store None)
         ''c1'' (world_with None)"
  by (simp add: direct_handler_from_capacity_check[OF direct_reaches_in_scenario]
      direct_capacity_check_def store_def)

lemma presign_by_key_run:
  "presign_handler env0 (key_caller uid) (presign_request (Some ''Y'') None None)
     (world_with None)
   = presign_register env0 (key_caller uid) (presign_request (Some ''Y'') None None)
       (store None) ''c1'' ''new.txt'' (world_with None)"
proof -
  have reach: "presign_reaches_capacity_check (presign_request (Some ''Y'') None None)
      (world_with None) ''c1'' ''new.txt'' (store None)"
    by (simp add: presign_reaches_in_scenario truthy_num_def)
  have not_admin: "\<not> isAdmin (key_caller uid)"
    by (simp add: key_caller_def)
  show ?thesis
    using not_admin
    by (simp add: presign_handler_from_capacity_check[OF reach] presign_capacity_check_def
        store_def)
qed

lemma commit_by_key_run:
  "commit_handler env0 (key_caller ''k1'') (commit_request et sz ex) (world_with None)
   = (Inr (commit_answer env0 (commit_request et sz ex)
             (commit_update env0 (key_caller ''k1'') (commit_request et sz ex) file_X)),
      commit_persist env0 (key_caller ''k1'') (commit_request et sz ex) ''f1'' (store None)
        file_X (world_with None))"
  by (simp add: commit_handler_from_capacity_check[OF commit_reaches_in_scenario]
      commit_capacity_check_def store_def)

theorem creator_identity_witness:
  "caller_is_admin (admin_caller ''admin1'') \<and>
   presign_created_by (admin_caller ''admin1'') = Some ''admin1'' \<and>
   caller_is_key (key_caller ''k1'') \<and>
   presign_created_by (key_caller ''k1'') = Some ''apikey:k1'' \<and>
   commit_creator (key_caller ''k1'') = ''apikey:k1'' \<and>
   currentCreator (key_caller ''k1'') = ''apikey:k1'' \<and>
   \<not> isl (fst (presign_handler env0 (key_caller ''k1'') (presign_request (Some ''Y'') None None)
     (world_with None))) \<and>
   \<not> isl (fst (commit_handler env0 (key_caller ''k1'') (commit_request None (Some 4) None)
     (world_with None))) \<and>
   \<not> isl (fst (direct_handler env0 (key_caller ''k1'') (direct_upload (Some ''Y'') None)
     (world_with None))) \<and>
   truthy_str (created_by file_X) \<and>
   (\<exists>pre p. files (snd (presign_handler env0 (key_caller ''k1'')
        (presign_request (Some ''Y'') None None) (world_with None))) = pre @ [p] \<and>
      created_by p = Some ''apikey:k1'') \<and>
   (\<exists>pre p. files (snd (direct_handler env0 (key_caller ''k1'')
        (direct_upload (Some ''Y'') None) (world_with None))) = pre @ [p] \<and>
      created_by p = Some ''apikey:k1'') \<and>
   (\<exists>fid row. b_file_id (commit_request None (Some 4) None) = Some fid \<and>
      find (\<lambda>f. file_id f = fid) (files (world_with None)) = Some row \<and>
      created_by row = Some ''apikey:k1'')"
proof -
  let ?a = "key_caller ''k1''"
  let ?w = "world_with None"
  let ?p = "presign_request (Some ''Y'') None None"
  let ?c = "commit_request None (Some 4) None"
  let ?d = "direct_upload (Some ''Y'') None"
  note admin = creator_identity[of "admin_caller ''admin1''" env0 ?p ?w ?c ?d,
      THEN conjunct1]
  note th = creator_identity[of ?a env0 ?p ?w ?c ?d]
  have is_admin: "caller_is_admin (admin_caller ''admin1'')"
    by (simp add: caller_is_admin_def admin_caller_def)
  have is_key: "caller_is_key ?a"
    by (simp add: caller_is_key_def key_caller_def)
  have uid: "userId (admin_caller ''admin1'') = ''admin1''" "userId ?a = ''k1''"
    by (simp_all add: admin_caller_def key_caller_def)
  have p_ok: "\<not> isl (fst (presign_handler env0 ?a ?p ?w))"
    unfolding presign_by_key_run presign_register_in_scenario using fresh_Y by simp
  have c_ok: "\<not> isl (fst (commit_handler env0 ?a ?c ?w))"
    by (simp add: commit_by_key_run)
  have d_ok: "\<not> isl (fst (direct_handler env0 ?a ?d ?w))"
    unfolding direct_by_key_in_scenario direct_register_in_scenario using fresh_Y by simp
  have owned: "truthy_str (created_by file_X)"
    by (simp add: truthy_str_def file_X_def)
  from admin is_admin uid have a1: "presign_created_by (admin_caller ''admin1'') = Some ''admin1''"
    by simp
  from th is_key uid have k1: "presign_created_by ?a = Some ''apikey:k1''"
    "commit_creator ?a = ''apikey:k1''" "currentCreator ?a = ''apikey:k1''"
    by simp_all
  from p_ok obtain rp where rp: "fst (presign_handler env0 ?a ?p ?w) = Inr rp"
    by (cases "fst (presign_handler env0 ?a ?p ?w)") auto
  from d_ok obtain rd where rd: "fst (direct_handler env0 ?a ?d ?w) = Inr rd"
    by (cases "fst (direct_handler env0 ?a ?d ?w)") auto
  from th rp k1 have e1: "\<exists>pre p. files (snd (presign_handler env0 ?a ?p ?w)) = pre @ [p] \<and>
      created_by p = Some ''apikey:k1''"
    by metis
  from th rd k1 have e2: "\<exists>pre p. files (snd (direct_handler env0 ?a ?d ?w)) = pre @ [p] \<and>
      created_by p = Some ''apikey:k1''"
    by metis
  have key_or: "caller_is_admin ?a \<or> caller_is_key ?a"
    using is_key by simp
  from th c_ok have "\<exists>fid row. b_file_id ?c = Some fid \<and>
         find (\<lambda>f. file_id f = fid) (files ?w) = Some row \<and>
         (truthy_str (created_by row) \<and> (caller_is_admin ?a \<or> caller_is_key ?a) \<longrightarrow>
            created_by row = Some (commit_creator ?a))"
    by blast
  then obtain fid row where id: "b_file_id ?c = Some fid"
    and f: "find (\<lambda>f. file_id f = fid) (files ?w) = Some row"
    and keep: "truthy_str (created_by row) \<and> (caller_is_admin ?a \<or> caller_is_key ?a) \<longrightarrow>
            created_by row = Some (commit_creator ?a)"
    by blast
  from id have "fid = ''f1''" by (simp add: commit_request_def)
  with f have "row = file_X" by (simp add: world_with_def file_X_def)
  with keep owned key_or k1 have "created_by row = Some ''apikey:k1''" by simp
  with id f have e3: "\<exists>fid row. b_file_id ?c = Some fid \<and>
      find (\<lambda>f. file_id f = fid) (files ?w) = Some row \<and> created_by row = Some ''apikey:k1''"
    by blast
  from is_admin a1 is_key k1 p_ok c_ok d_ok owned e1 e2 e3 show ?thesis
    by blast
qed

subsection \<open>Expiry\<close>

lemma create_expiresAt_never:
  assumes "e = ExpiryNull \<or> e = ExpiryString ''never''"
  shows "create_expiresAt kenv e = Some far_future"
  using assms by (auto simp: create_expiresAt_def)

lemma update_expiresAt_never:
  assumes "e = ExpiryNull \<or> e = ExpiryString ''never''"
  shows "update_expiresAt kenv e = Inr (Some far_future)"
  using assms by (auto simp: update_expiresAt_def)

lemma createApiKey_never:
  assumes "kd_expires_at keyData = ExpiryNull \<or> kd_expires_at keyData = ExpiryString ''never''"
    and "createApiKey kenv keys keyData = Inr (k, keys')"
  shows "key_expires_at k = Some far_future \<and> keys' = keys @ [k]"
  using assms(2) create_expiresAt_never[OF assms(1), of kenv]
  by (auto simp: createApiKey_def new_api_key_def split: option.splits if_splits)

lemma updateApiKey_success:
  assumes "updateApiKey kenv keys kid updateData = Inr keys'"
  shows "\<exists>e. update_expiresAt kenv (ud_expires_at updateData) = Inr e \<and>
           keys' = map (\<lambda>k. if key_id k = kid then apply_update updateData e k else k) keys"
proof (cases "find (\<lambda>k. key_id k = kid) keys")
  case None
  with assms show ?thesis
    by (simp add: updateApiKey_def)
next
  case (Some keyExists)
  show ?thesis
  proof (cases "update_expiresAt kenv (ud_expires_at updateData)")
    case (Inl err)
    with assms Some show ?thesis
      by (simp add: updateApiKey_def split: if_splits)
  next
    case (Inr e)
    with assms Some show ?thesis
      by (simp add: updateApiKey_def split: if_splits)
  qed
qed

lemma apply_update_expiry:
  "key_expires_at (apply_update updateData (Some t) k) = Some t"
  by (simp add: apply_update_def)

lemma updateApiKey_never:
  assumes "ud_expires_at updateData = ExpiryNull
             \<or> ud_expires_at updateData = ExpiryString ''never''"
    and "updateApiKey kenv keys kid updateData = Inr keys'"
    and "k \<in> set keys'" and "key_id k = kid"
  shows "key_expires_at k = Some far_future"
proof -
  from updateApiKey_success[OF assms(2)] update_expiresAt_never[OF assms(1), of kenv]
  have "keys' = map (\<lambda>k. if key_id k = kid then apply_update updateData (Some far_future) k
                           else k) keys"
    by simp
  with assms(3) obtain k0 where "k0 \<in> set keys"
    and "k = (if key_id k0 = kid then apply_update updateData (Some far_future) k0 else k0)"
    by auto
  with assms(4) show ?thesis
    by (cases "key_id k0 = kid") (simp_all add: apply_update_expiry)
qed

lemma commit_expiresAt_null:
  "num_or_zero e \<le> 0 \<Longrightarrow> commit_expiresAt env e = None"
  by (auto simp: commit_expiresAt_def num_or_zero_def split: option.splits)

lemma direct_expiresAt_null:
  "num_or_zero e \<le> 0 \<Longrightarrow> direct_expiresAt env e = None"
  by (simp add: direct_expiresAt_def)

lemma direct_answer_expires:
  assumes "fst (direct_handler env a req w) = Inr r"
  shows "dr_expires_at r = direct_expiresAt env (q_expires_in req)"
proof -
  from direct_handler_success[OF assms] obtain s3ConfigId s3Config
    where run: "direct_handler env a req w = direct_register env a req s3Config s3ConfigId w"
    by blast
  with assms have "fst (direct_register env a req s3Config s3ConfigId w) = Inr r"
    by simp
  then show ?thesis
    by (auto simp: direct_register_def direct_store_def direct_answer_def
        split: sum.splits if_splits upload_outcome.splits)
qed

lemma commit_success_expiry:
  assumes e: "num_or_zero (b_expires_in cbody) \<le> 0"
    and ok: "\<not> isl (fst (commit_handler env a cbody w))"
  shows "\<exists>fid row. b_file_id cbody = Some fid \<and>
         find (\<lambda>f. file_id f = fid) (files w) = Some row \<and>
         (\<forall>f \<in> set (files (snd (commit_handler env a cbody w))).
            file_id f = fid \<longrightarrow> expires_at f = None)"
proof -
  from commit_success_rows[OF ok] obtain fid row
    where id: "b_file_id cbody = Some fid"
      and f: "find (\<lambda>f. file_id f = fid) (files w) = Some row"
      and fs: "files (snd (commit_handler env a cbody w))
           = map (\<lambda>f. if file_id f = fid then commit_update env a cbody f else f) (files w)"
    by blast
  have upd: "expires_at (commit_update env a cbody g) = None" for g
    using commit_expiresAt_null[OF e, of env] by (simp add: commit_update_def)
  have "expires_at f = None"
    if "f \<in> set (files (snd (commit_handler env a cbody w)))" "file_id f = fid" for f
  proof -
    from that(1) obtain g where "g \<in> set (files w)"
      and "f = (if file_id g = fid then commit_update env a cbody g else g)"
      unfolding fs by auto
    with that(2) show ?thesis
      by (cases "file_id g = fid") (simp_all add: upd)
  qed
  with id f show ?thesis by blast
qed

lemma direct_success_expiry:
  assumes e: "num_or_zero (q_expires_in req) \<le> 0"
    and ok: "fst (direct_handler env a req w) = Inr r"
  shows "dr_expires_at r = None \<and>
      (\<exists>pre p. files (snd (direct_handler env a req w)) = pre @ [p] \<and>
         file_id p = dr_id r \<and> expires_at p = None)"
proof -
  from direct_success_row[OF ok] obtain pre p
    where "files (snd (direct_handler env a req w)) = pre @ [p]" "file_id p = dr_id r"
      "expires_at p = direct_expiresAt env (q_expires_in req)"
    by blast
  with direct_answer_expires[OF ok] direct_expiresAt_null[OF e, of env]
  show ?thesis by auto
qed

text \<open>
  \<^bold>\<open>C8\<close> (expiry sentinel), as the code has it. For API keys, an \<open>expires_at\<close> of
  \<open>null\<close> or \<open>"never"\<close> given to \<open>createApiKey\<close> or \<open>updateApiKey\<close> is stored as the
  fixed timestamp \<open>9999-12-31T23:59:59.000Z\<close>. For file rows there is no sentinel: a
  commit or a direct upload whose \<open>expires_in\<close> is absent, \<open>null\<close> or not positive stores
  the expiry \<open>NULL\<close>.
\<close>

theorem expiry_mapping:
  "(kd_expires_at keyData = ExpiryNull \<or> kd_expires_at keyData = ExpiryString ''never'' \<longrightarrow>
      (\<forall>k keys'. createApiKey kenv keys keyData = Inr (k, keys') \<longrightarrow>
         key_expires_at k = Some far_future \<and> keys' = keys @ [k])) \<and>
   (ud_expires_at updateData = ExpiryNull \<or> ud_expires_at updateData = ExpiryString ''never''
      \<longrightarrow>
      (\<forall>keys'. updateApiKey kenv keys kid updateData = Inr keys' \<longrightarrow>
         (\<forall>k \<in> set keys'. key_id k = kid \<longrightarrow> key_expires_at k = Some far_future))) \<and>
   far_future = ''9999-12-31T23:59:59.000Z'' \<and>
   (num_or_zero (b_expires_in cbody) \<le> 0 \<and> \<not> isl (fst (commit_handler env a cbody w)) \<longrightarrow>
      (\<exists>fid row. b_file_id cbody = Some fid \<and>
         find (\<lambda>f. file_id f = fid) (files w) = Some row \<and>
         (\<forall>f \<in> set (files (snd (commit_handler env a cbody w))).
            file_id f = fid \<longrightarrow> expires_at f = None))) \<and>
   (\<forall>r. num_or_zero (q_expires_in req) \<le> 0 \<and> fst (direct_handler env a req w) = Inr r \<longrightarrow>
      dr_expires_at r = None \<and>
      (\<exists>pre p. files (snd (direct_handler env a req w)) = pre @ [p] \<and>
         file_id p = dr_id r \<and> expires_at p = None))"
proof -
  have create: "kd_expires_at keyData = ExpiryNull
        \<or> kd_expires_at keyData = ExpiryString ''never'' \<longrightarrow>
      (\<forall>k keys'. createApiKey kenv keys keyData = Inr (k, keys') \<longrightarrow>
         key_expires_at k = Some far_future \<and> keys' = keys @ [k])"
    using createApiKey_never[of keyData kenv keys] by blast
  have update: "ud_expires_at updateData = ExpiryNull
        \<or> ud_expires_at updateData = ExpiryString ''never'' \<longrightarrow>
      (\<forall>keys'. updateApiKey kenv keys kid updateData = Inr keys' \<longrightarrow>
         (\<forall>k \<in> set keys'. key_id k = kid \<longrightarrow> key_expires_at k = Some far_future))"
    using updateApiKey_never[of updateData kenv keys kid] by blast
  have far: "far_future = ''9999-12-31T23:59:59.000Z''"
    by (simp add: far_future_def)
  have commit:
    "num_or_zero (b_expires_in cbody) \<le> 0 \<and> \<not> isl (fst (commit_handler env a cbody w)) \<longrightarrow>
      (\<exists>fid row. b_file_id cbody = Some fid \<and>
         find (\<lambda>f. file_id f = fid) (files w) = Some row \<and>
         (\<forall>f \<in> set (files (snd (commit_handler env a cbody w))).
            file_id f = fid \<longrightarrow> expires_at f = None))"
    using commit_success_expiry[of cbody env a w] by blast
  have direct:
    "\<forall>r. num_or_zero (q_expires_in req) \<le> 0 \<and> fst (direct_handler env a req w) = Inr r \<longrightarrow>
      dr_expires_at r = None \<and>
      (\<exists>pre p. files (snd (direct_handler env a req w)) = pre @ [p] \<and>
         file_id p = dr_id r \<and> expires_at p = None)"
    using direct_success_expiry[of req env a w] by blast
  from create update far commit direct show ?thesis
    by - (intro conjI, assumption+)
qed

lemma commit_by_key_files:
  "files (snd (commit_handler env0 (key_caller ''k1'') (commit_request et sz ex)
      (world_with None)))
   = [commit_update env0 (key_caller ''k1'') (commit_request et sz ex) file_X]"
proof -
  have fs: "files (world_with None) = [file_X]" and id: "file_id file_X = ''f1''"
    by (simp_all add: world_with_def file_X_def)
  show ?thesis
    unfolding commit_by_key_run by (simp add: files_commit_persist fs id)
qed

text \<open>A commit with a \<open>null\<close> expiry succeeds and stores \<open>NULL\<close>, not the far-future
  timestamp.\<close>

theorem commit_stores_null_expiry:
  "b_expires_in (commit_request None (Some 4) None) = None \<and>
   \<not> isl (fst (commit_handler env0 (key_caller ''k1'') (commit_request None (Some 4) None)
            (world_with None))) \<and>
   map expires_at (files (snd (commit_handler env0 (key_caller ''k1'')
            (commit_request None (Some 4) None) (world_with None)))) = [None]"
proof -
  have "b_expires_in (commit_request None (Some 4) None) = None"
    by (simp add: commit_request_def)
  moreover have "\<not> isl (fst (commit_handler env0 (key_caller ''k1'')
      (commit_request None (Some 4) None) (world_with None)))"
    by (simp add: commit_by_key_run)
  moreover have "map expires_at (files (snd (commit_handler env0 (key_caller ''k1'')
      (commit_request None (Some 4) None) (world_with None)))) = [None]"
    unfolding commit_by_key_files
    by (simp add: commit_update_def commit_expiresAt_def commit_request_def)
  ultimately show ?thesis by simp
qed

theorem expiry_mapping_witness:
  "kd_expires_at (key_request ExpiryNull) = ExpiryNull \<and>
   createApiKey kenv0 [] (key_request ExpiryNull)
     = Inr (new_api_key kenv0 (key_request ExpiryNull) ''ci'' far_future,
            [new_api_key kenv0 (key_request ExpiryNull) ''ci'' far_future]) \<and>
   key_expires_at (new_api_key kenv0 (key_request ExpiryNull) ''ci'' far_future)
     = Some far_future \<and>
   ud_expires_at (expiry_update (ExpiryString ''never'')) = ExpiryString ''never'' \<and>
   updateApiKey kenv0 [key_row] ''k1'' (expiry_update (ExpiryString ''never''))
     = Inr [key_row\<lparr>key_expires_at := Some far_future\<rparr>] \<and>
   key_expires_at (key_row\<lparr>key_expires_at := Some far_future\<rparr>) = Some far_future \<and>
   num_or_zero (b_expires_in (commit_request None (Some 4) None)) \<le> 0 \<and>
   \<not> isl (fst (commit_handler env0 (key_caller ''k1'') (commit_request None (Some 4) None)
            (world_with None))) \<and>
   num_or_zero (q_expires_in (direct_upload (Some ''Y'') None)) \<le> 0 \<and>
   \<not> isl (fst (direct_handler env0 (key_caller ''k1'') (direct_upload (Some ''Y'') None)
            (world_with None))) \<and>
   (\<exists>pre p. files (snd (direct_handler env0 (key_caller ''k1'') (direct_upload (Some ''Y'') None)
        (world_with None))) = pre @ [p] \<and> expires_at p = None)"
proof -
  let ?a = "key_caller ''k1''"
  let ?w = "world_with None"
  let ?c = "commit_request None (Some 4) None"
  let ?d = "direct_upload (Some ''Y'') None"
  let ?kd = "key_request ExpiryNull"
  let ?ud = "expiry_update (ExpiryString ''never'')"
  note th = expiry_mapping[where keyData = ?kd and kenv = kenv0 and updateData = ?ud
      and kid = "''k1''" and cbody = ?c and env = env0 and a = ?a and w = ?w and req = ?d]
  have h1: "kd_expires_at ?kd = ExpiryNull"
    by (simp add: key_request_def)
  have c1: "createApiKey kenv0 [] ?kd
     = Inr (new_api_key kenv0 ?kd ''ci'' far_future, [new_api_key kenv0 ?kd ''ci'' far_future])"
    by (simp add: createApiKey_def key_request_def js_trim_def js_space_def truthy_str_def
        create_expiresAt_def)
  from th h1 c1 have r1: "key_expires_at (new_api_key kenv0 ?kd ''ci'' far_future)
      = Some far_future"
    by blast
  have h2: "ud_expires_at ?ud = ExpiryString ''never''"
    by (simp add: expiry_update_def)
  have c2: "updateApiKey kenv0 [key_row] ''k1'' ?ud
     = Inr [key_row\<lparr>key_expires_at := Some far_future\<rparr>]"
    by (simp add: updateApiKey_def expiry_update_def key_row_def truthy_str_def
        update_expiresAt_def apply_update_def)
  from th h2 c2 have r2: "key_expires_at (key_row\<lparr>key_expires_at := Some far_future\<rparr>)
      = Some far_future"
    by simp
  have h3: "num_or_zero (b_expires_in ?c) \<le> 0"
    by (simp add: commit_request_def num_or_zero_def)
  have c3: "\<not> isl (fst (commit_handler env0 ?a ?c ?w))"
    by (simp add: commit_by_key_run)
  have h4: "num_or_zero (q_expires_in ?d) \<le> 0"
    by (simp add: direct_upload_def num_or_zero_def)
  have c4: "\<not> isl (fst (direct_handler env0 ?a ?d ?w))"
    unfolding direct_by_key_in_scenario direct_register_in_scenario using fresh_Y by simp
  then obtain rd where rd: "fst (direct_handler env0 ?a ?d ?w) = Inr rd"
    by (cases "fst (direct_handler env0 ?a ?d ?w)") auto
  from th h4 rd have r4: "\<exists>pre p. files (snd (direct_handler env0 ?a ?d ?w)) = pre @ [p] \<and>
      expires_at p = None"
    by blast
  from h1 c1 r1 h2 c2 r2 h3 c3 h4 c4 r4 show ?thesis
    by blast
qed

subsection \<open>Override and ownership\<close>

lemma custom_slug_with_override:
  assumes "s \<noteq> []"
  shows "generateUniqueFileSlug gen fs (Some s) True
           = (if slugFormatRegex s then Inr s else Inl InvalidSlugFormat)"
  using assms by (simp add: generateUniqueFileSlug_def)

text \<open>The direct route refuses to replace a file of another creator, and changes
  nothing.\<close>

lemma direct_override_refused:
  assumes reach: "direct_reaches_capacity_check a req w s3ConfigId s3Config"
    and chk: "direct_capacity_check s3Config s3ConfigId (int (d_byteLength req)) w = None"
    and sl: "q_slug req = Some s" "slugFormatRegex s"
    and ov: "q_override req = Some ''true''"
    and old: "find (\<lambda>f. slug f = s) (files w) = Some old"
    and other: "created_by old \<noteq> Some (currentCreator a)"
  shows "direct_handler env a req w = (Inl NotYourFileToOverride, w)"
proof -
  from sl have ne: "s \<noteq> []"
    by (auto simp: slugFormatRegex_def)
  have slug_ok: "generateUniqueFileSlug (randomSlug env) (files w) (q_slug req)
      (q_override req = Some ''true'') = Inr s"
    using sl ov by (simp add: custom_slug_with_override[OF ne])
  have "direct_override env a req w = Inl NotYourFileToOverride"
    using sl ov old other ne by (simp add: direct_override_def truthy_str_def)
  then have "direct_register env a req s3Config s3ConfigId w = (Inl NotYourFileToOverride, w)"
    by (simp add: direct_register_def slug_ok)
  then show ?thesis
    by (simp add: direct_handler_from_capacity_check[OF reach] chk)
qed

lemma filter_single_find:
  "filter P xs = [x] \<Longrightarrow> find P xs = Some x"
  by (induction xs) (auto split: if_splits simp: filter_empty_conv Cons_eq_filter_iff)

lemma files_delete_superseded_carried:
  assumes "\<forall>c. deleteFileFromS3 env c (storage_path old) \<noteq> DeleteThrows"
  shows "files (delete_superseded env old w) = filter (\<lambda>f. file_id f \<noteq> file_id old) (files w)"
  using assms
  by (simp add: delete_superseded_def delete_file_row_def split: option.splits)

text \<open>The direct route, for the creator of the old file: after a successful upload
  the slug belongs to the new row alone.\<close>

lemma direct_override_replaces:
  assumes ok: "fst (direct_handler env a req w) = Inr r"
    and sl: "q_slug req = Some s" "s \<noteq> []"
    and ov: "q_override req = Some ''true''"
    and only: "filter (\<lambda>f. slug f = s) (files w) = [old]"
    and carried: "\<forall>c. deleteFileFromS3 env c (storage_path old) \<noteq> DeleteThrows"
  shows "created_by old = Some (currentCreator a) \<and>
         (\<exists>p. filter (\<lambda>f. slug f = s) (files (snd (direct_handler env a req w))) = [p] \<and>
              file_id p = dr_id r \<and> created_by p = Some (currentCreator a))"
proof -
  from direct_handler_success[OF ok] obtain s3ConfigId s3Config
    where run: "direct_handler env a req w = direct_register env a req s3Config s3ConfigId w"
    by blast
  with ok have reg: "fst (direct_register env a req s3Config s3ConfigId w) = Inr r"
    by simp
  have found: "find (\<lambda>f. slug f = s) (files w) = Some old"
    by (rule filter_single_find[OF only])
  have slug_is: "generateUniqueFileSlug (randomSlug env) (files w) (q_slug req)
      (q_override req = Some ''true'') = Inr s"
  proof (cases "slugFormatRegex s")
    case True
    then show ?thesis using sl ov by (simp add: custom_slug_with_override)
  next
    case False
    then have "generateUniqueFileSlug (randomSlug env) (files w) (q_slug req)
      (q_override req = Some ''true'') = Inl InvalidSlugFormat"
      using sl ov by (simp add: custom_slug_with_override)
    with reg show ?thesis
      by (simp add: direct_register_def)
  qed
  have mine: "created_by old = Some (currentCreator a)"
  proof (rule ccontr)
    assume "created_by old \<noteq> Some (currentCreator a)"
    then have "direct_override env a req w = Inl NotYourFileToOverride"
      using sl ov found by (simp add: direct_override_def truthy_str_def)
    with reg show False
      by (simp add: direct_register_def slug_is)
  qed
  then have ovr: "direct_override env a req w = Inr (delete_superseded env old w)"
    using sl ov found by (simp add: direct_override_def truthy_str_def)
  have cleared: "filter (\<lambda>f. slug f = s) (files (delete_superseded env old w)) = []"
  proof -
    have "filter (\<lambda>f. slug f = s) (files (delete_superseded env old w))
        = filter (\<lambda>f. file_id f \<noteq> file_id old) (filter (\<lambda>f. slug f = s) (files w))"
      by (simp add: files_delete_superseded_carried[OF carried] conj_commute)
    then show ?thesis by (simp add: only)
  qed
  from direct_register_success[OF reg] ovr obtain p
    where fs: "files (snd (direct_register env a req s3Config s3ConfigId w))
        = files (delete_superseded env old w) @ [p]"
      and p: "file_id p = dr_id r" "slug p = dr_slug r" "created_by p = Some (currentCreator a)"
    by auto
  from reg have "dr_slug r = s"
    by (auto simp: direct_register_def slug_is direct_store_def direct_answer_def
        split: sum.splits upload_outcome.splits)
  with fs p cleared have "filter (\<lambda>f. slug f = s)
      (files (snd (direct_register env a req s3Config s3ConfigId w))) = [p]"
    by simp
  with p mine show ?thesis
    unfolding run by blast
qed

text \<open>
  \<^bold>\<open>C5\<close> (override and ownership). The claim: an override by another creator fails
  with a permission error and leaves the old row, its password shadow and its object
  untouched, in the presign flow as in the direct flow. The direct route does so
  (\<open>direct_override_refused\<close>), and for the creator it leaves the slug to the new row
  alone (\<open>direct_override_replaces\<close>). The presign route has no ownership check: the key
  \<open>k2\<close> presigns with slug \<open>X\<close> and \<open>override=true\<close> over the file of \<open>k1\<close>; the
  request succeeds, the row, the password shadow and the object of \<open>k1\<close> are gone, and
  the slug belongs to a placeholder of \<open>k2\<close>.
\<close>

theorem presign_override_ignores_creator:
  "created_by file_X = Some ''apikey:k1'' \<and>
   currentCreator (key_caller ''k2'') = ''apikey:k2'' \<and>
   direct_handler env0 (key_caller ''k2'') (direct_upload (Some ''X'') (Some ''true''))
     (world_with None) = (Inl NotYourFileToOverride, world_with None) \<and>
   \<not> isl (fst (presign_handler env0 (key_caller ''k2'')
            (presign_request (Some ''X'') (Some ''true'') None) (world_with None))) \<and>
   map (\<lambda>f. (file_id f, slug f, created_by f))
     (files (snd (presign_handler env0 (key_caller ''k2'')
            (presign_request (Some ''X'') (Some ''true'') None) (world_with None))))
     = [(''f2'', ''X'', Some ''apikey:k2'')] \<and>
   file_passwords (snd (presign_handler env0 (key_caller ''k2'')
            (presign_request (Some ''X'') (Some ''true'') None) (world_with None))) = [] \<and>
   objects (snd (presign_handler env0 (key_caller ''k2'')
            (presign_request (Some ''X'') (Some ''true'') None) (world_with None))) = []"
proof -
  let ?a = "key_caller ''k2''"
  let ?w = "world_with None"
  let ?p = "presign_request (Some ''X'') (Some ''true'') None"
  let ?d = "direct_upload (Some ''X'') (Some ''true'')"
  have owner: "created_by file_X = Some ''apikey:k1''"
    by (simp add: file_X_def)
  have me: "currentCreator ?a = ''apikey:k2''"
    by (simp add: currentCreator_def key_caller_def)
  have direct: "direct_handler env0 ?a ?d ?w = (Inl NotYourFileToOverride, ?w)"
  proof (rule direct_override_refused)
    show "direct_reaches_capacity_check ?a ?d ?w ''c1'' (store None)"
      by (rule direct_reaches_in_scenario)
    show "direct_capacity_check (store None) ''c1'' (int (d_byteLength ?d)) ?w = None"
      by (simp add: direct_capacity_check_def store_def)
    show "q_slug ?d = Some ''X''" "q_override ?d = Some ''true''"
      by (simp_all add: direct_upload_def)
    show "slugFormatRegex ''X''"
      by (simp add: slugFormatRegex_def slug_char_def)
    show "find (\<lambda>f. slug f = ''X'') (files ?w) = Some file_X"
      by (simp add: world_with_def file_X_def)
    show "created_by file_X \<noteq> Some (currentCreator ?a)"
      by (simp add: owner me)
  qed
  have reach: "presign_reaches_capacity_check ?p ?w ''c1'' ''new.txt'' (store None)"
    by (simp add: presign_reaches_in_scenario truthy_num_def)
  have not_admin: "\<not> isAdmin ?a"
    by (simp add: key_caller_def)
  have chk: "presign_capacity_check (store None) ''c1'' sz ?w = None" for sz
    by (simp add: presign_capacity_check_def store_def)
  have run: "presign_handler env0 ?a ?p ?w
      = presign_register env0 ?a ?p (store None) ''c1'' ''new.txt'' ?w"
    using not_admin by (simp add: presign_handler_from_capacity_check[OF reach] chk)
  have deleted: "presign_override env0 ?p ?w
      = \<lparr>files = [], file_passwords = [], s3_configs = [store None], max_upload_size = None,
         objects = [], cache_cleared = [''c1''], parents_touched = []\<rparr>"
    by (simp add: presign_override_def truthy_str_def delete_superseded_def delete_object_def
        delete_file_row_def delete_password_row_def clearCache_def world_with_def file_X_def
        store_def env0_def)
  have slug_ok: "generateUniqueFileSlug (randomSlug env0) (files ?w) (Some ''X'') True
      = Inr ''X''"
    by (simp add: custom_slug_with_override slugFormatRegex_def slug_char_def)
  have path: "storagePath_of env0 ?a (store None) (customPath_of None) namePart
      = Inr (''up/'' @ namePart)" for namePart
    by (simp add: storagePath_of_def key_caller_def customPath_of_def folderPath_def
        store_def suffix_to_prefix)
  have name: "shortId env0 = ''sid''" "safeFileName_of env0 ''new.txt'' = ''new''"
    "snd (getFileNameAndExt env0 ''new.txt'') = ''.txt''"
    by (simp_all add: safeFileName_of_def env0_def)
  have reg: "presign_register env0 ?a ?p (store None) ''c1'' ''new.txt'' ?w
      = (Inr (presign_answer env0 (store None) ''new.txt'' ''X'' ''up/sid-new.txt''),
         (presign_override env0 ?p ?w)
           \<lparr>files := files (presign_override env0 ?p ?w)
              @ [presign_placeholder env0 ?a (store None) ''c1'' ''new.txt'' ''X''
                   ''up/sid-new.txt'']\<rparr>)"
    by (simp add: presign_register_def slug_ok path name)
  have ok: "\<not> isl (fst (presign_handler env0 ?a ?p ?w))"
    by (simp add: run reg)
  have rows: "map (\<lambda>f. (file_id f, slug f, created_by f))
      (files (snd (presign_handler env0 ?a ?p ?w))) = [(''f2'', ''X'', Some ''apikey:k2'')]"
    unfolding run reg deleted
    by (simp add: presign_placeholder_def presign_created_by_def key_caller_def env0_def)
  have shadows: "file_passwords (snd (presign_handler env0 ?a ?p ?w)) = []"
    and objs: "objects (snd (presign_handler env0 ?a ?p ?w)) = []"
    by (simp_all add: run reg deleted)
  from owner me direct ok rows shadows objs show ?thesis
    by - (intro conjI, assumption+)
qed

end
